theory Spec2Isabelle
  imports Complex_Main "HOL-Library.Word"
begin

unbundle bit_operations_syntax

section \<open>Vectors and matrices\<close>

text \<open>
  The renderer computes with glm vectors and column-major 4x4 matrices of C floats.
  Floats are idealised as reals here: rounding, infinities and NaN are outside the model.
  The two integer-to-float conversions of the renderer (slot index and material id) are
  modelled exactly, see \<open>float_of_uint32\<close>.
\<close>

datatype vec2 = Vec2 (vec2_x: real) (vec2_y: real)
datatype vec3 = Vec3 (vec3_x: real) (vec3_y: real) (vec3_z: real)
datatype vec4 = Vec4 (vec4_x: real) (vec4_y: real) (vec4_z: real) (vec4_w: real)

text \<open>A glm::mat4 is four columns; \<open>m[i]\<close> is column \<open>i\<close>.\<close>

datatype mat4 = Mat4 (col0: vec4) (col1: vec4) (col2: vec4) (col3: vec4)

definition vec4_add :: "vec4 \<Rightarrow> vec4 \<Rightarrow> vec4" where
  "vec4_add a b = Vec4 (vec4_x a + vec4_x b) (vec4_y a + vec4_y b) (vec4_z a + vec4_z b) (vec4_w a + vec4_w b)"

definition vec4_smul :: "vec4 \<Rightarrow> real \<Rightarrow> vec4" where
  "vec4_smul a k = Vec4 (vec4_x a * k) (vec4_y a * k) (vec4_z a * k) (vec4_w a * k)"

text \<open>\<open>glm::vec3(v)\<close> for a vec4 \<open>v\<close>: the first three components.\<close>

definition vec3_of_vec4 :: "vec4 \<Rightarrow> vec3" where
  "vec3_of_vec4 v = Vec3 (vec4_x v) (vec4_y v) (vec4_z v)"

text \<open>\<open>glm::mat4(1.0f)\<close>.\<close>

definition mat4_identity :: mat4 where
  "mat4_identity = Mat4 (Vec4 1 0 0 0) (Vec4 0 1 0 0) (Vec4 0 0 1 0) (Vec4 0 0 0 1)"

text \<open>\<open>m * v\<close>: the linear combination of the columns of \<open>m\<close>.\<close>

definition mat4_mul_vec4 :: "mat4 \<Rightarrow> vec4 \<Rightarrow> vec4" where
  "mat4_mul_vec4 m v =
     vec4_add (vec4_add (vec4_add (vec4_smul (col0 m) (vec4_x v)) (vec4_smul (col1 m) (vec4_y v)))
                        (vec4_smul (col2 m) (vec4_z v)))
              (vec4_smul (col3 m) (vec4_w v))"

text \<open>\<open>a * b\<close>: column \<open>j\<close> of the product is \<open>a\<close> applied to column \<open>j\<close> of \<open>b\<close>.\<close>

definition mat4_mul :: "mat4 \<Rightarrow> mat4 \<Rightarrow> mat4" where
  "mat4_mul a b = Mat4 (mat4_mul_vec4 a (col0 b)) (mat4_mul_vec4 a (col1 b))
                       (mat4_mul_vec4 a (col2 b)) (mat4_mul_vec4 a (col3 b))"

text \<open>\<open>glm::translate(m, v)\<close>: only the last column changes.\<close>

definition glm_translate :: "mat4 \<Rightarrow> vec3 \<Rightarrow> mat4" where
  "glm_translate m v =
     Mat4 (col0 m) (col1 m) (col2 m)
          (vec4_add (vec4_add (vec4_add (vec4_smul (col0 m) (vec3_x v)) (vec4_smul (col1 m) (vec3_y v)))
                              (vec4_smul (col2 m) (vec3_z v)))
                    (col3 m))"

text \<open>\<open>glm::scale(m, v)\<close>: the first three columns are scaled.\<close>

definition glm_scale :: "mat4 \<Rightarrow> vec3 \<Rightarrow> mat4" where
  "glm_scale m v =
     Mat4 (vec4_smul (col0 m) (vec3_x v)) (vec4_smul (col1 m) (vec3_y v))
          (vec4_smul (col2 m) (vec3_z v)) (col3 m)"

definition glm_radians :: "real \<Rightarrow> real" where
  "glm_radians degrees = degrees * (pi / 180)"

definition glm_normalize :: "vec3 \<Rightarrow> vec3" where
  "glm_normalize v =
     (let l = sqrt (vec3_x v * vec3_x v + vec3_y v * vec3_y v + vec3_z v * vec3_z v)
      in Vec3 (vec3_x v / l) (vec3_y v / l) (vec3_z v / l))"

text \<open>
  \<open>glm::rotate(m, angle, v)\<close>: the first three columns of \<open>m\<close> are recombined with the
  entries of the axis-angle rotation, the last column is copied.
\<close>

definition glm_rotate :: "mat4 \<Rightarrow> real \<Rightarrow> vec3 \<Rightarrow> mat4" where
  "glm_rotate m angle v =
     (let c = cos angle; s = sin angle;
          axis = glm_normalize v;
          ax = vec3_x axis; ay = vec3_y axis; az = vec3_z axis;
          tx = (1 - c) * ax; ty = (1 - c) * ay; tz = (1 - c) * az;
          r00 = c + tx * ax; r01 = tx * ay + s * az; r02 = tx * az - s * ay;
          r10 = ty * ax - s * az; r11 = c + ty * ay; r12 = ty * az + s * ax;
          r20 = tz * ax + s * ay; r21 = tz * ay - s * ax; r22 = c + tz * az
      in Mat4 (vec4_add (vec4_add (vec4_smul (col0 m) r00) (vec4_smul (col1 m) r01)) (vec4_smul (col2 m) r02))
              (vec4_add (vec4_add (vec4_smul (col0 m) r10) (vec4_smul (col1 m) r11)) (vec4_smul (col2 m) r12))
              (vec4_add (vec4_add (vec4_smul (col0 m) r20) (vec4_smul (col1 m) r21)) (vec4_smul (col2 m) r22))
              (col3 m))"

text \<open>The translation component of a transform: the first three entries of its last column.\<close>

definition translation_of :: "mat4 \<Rightarrow> vec3" where
  "translation_of m = vec3_of_vec4 (col3 m)"

definition atan2f :: "real \<Rightarrow> real \<Rightarrow> real" where
  "atan2f y x =
     (if 0 < x then arctan (y / x)
      else if x < 0 \<and> 0 \<le> y then arctan (y / x) + pi
      else if x < 0 then arctan (y / x) - pi
      else if 0 < y then pi / 2
      else if y < 0 then - (pi / 2)
      else 0)"

section \<open>Conversion of an unsigned 32-bit integer to float\<close>

text \<open>
  \<open>(float)u\<close> for a \<open>uint32_t\<close>: exact below \<open>2^24\<close>, otherwise the value is rounded to
  24 significant bits, to nearest with ties to even. The result is given by its exact
  value.
\<close>

definition float_exponent :: "nat \<Rightarrow> nat" where
  "float_exponent n =
     (if n < 2 ^ 24 then 0 else if n < 2 ^ 25 then 1 else if n < 2 ^ 26 then 2
      else if n < 2 ^ 27 then 3 else if n < 2 ^ 28 then 4 else if n < 2 ^ 29 then 5
      else if n < 2 ^ 30 then 6 else if n < 2 ^ 31 then 7 else 8)"

definition round_to_float :: "nat \<Rightarrow> nat" where
  "round_to_float n =
     (let e = float_exponent n; q = n div 2 ^ e; r = n mod 2 ^ e
      in if e = 0 then n
         else if 2 ^ (e - 1) < r \<or> (r = 2 ^ (e - 1) \<and> odd q) then (q + 1) * 2 ^ e
         else q * 2 ^ e)"

definition float_of_uint32 :: "32 word \<Rightarrow> real" where
  "float_of_uint32 u = real (round_to_float (unat u))"

section \<open>Data model\<close>

record Vertex =
  position :: vec3
  color :: vec4
  texture_coordinates :: vec2
  texture_id :: real
  material_id :: real

text \<open>One indirect draw descriptor (the five fields written by \<open>MakeCommand\<close>).\<close>

record DrawElementsCommand =
  vertex_count :: "32 word"
  instance_count :: "32 word"
  first_index :: "32 word"
  base_vertex :: "32 word"
  base_instance :: "32 word"

record Camera =
  GetProjection :: mat4
  GetView :: mat4

record Texture =
  GetTextureId :: "32 word"

record Glyph =
  glyph_size :: "int \<times> int"
  glyph_bearing :: "int \<times> int"
  glyph_advance :: "int \<times> int"
  glyph_offset :: real

record Font =
  glyphs :: "char \<Rightarrow> Glyph"
  font_width :: real
  font_height :: real
  font_size :: real
  font_texture :: Texture

text \<open>
  The \<open>current_shader\<close> pointer: null before the first scene, the renderer's own default
  shader, or a caller's shader.
\<close>

datatype shader_ref = NoShader | DefaultShader | UserShader nat

text \<open>
  The constants and tables of the renderer's header, which the functions below take as a
  parameter. \<open>Texture_words\<close> is \<open>sizeof(Texture)\<close> in units of \<open>sizeof(uint32_t)\<close>;
  \<open>CalculateSpriteCoordinate\<close> is the texture atlas helper used by text rendering.
\<close>

record Config =
  MAX_VERTEX_COUNT :: "32 word"
  MAX_INDEX_COUNT :: "32 word"
  MAX_TEXTURE_SLOTS :: "32 word"
  MAX_DRAW_COMMANDS :: nat
  PolygonMode :: int
  TopLeftCornerPos :: int
  QUAD_POSITIONS :: "vec4 list"
  TRIANGLE_POSITIONS :: "vec4 list"
  CUBE_POSITIONS :: "vec3 list"
  TEX_COORDS :: "vec2 list"
  Texture_words :: nat
  CalculateSpriteCoordinate :: "vec2 \<Rightarrow> real \<Rightarrow> real \<Rightarrow> vec2"

text \<open>
  Modelled from the spec: the per-primitive counts of the header (quad 4 vertices and 6
  indices, triangle 3 and 3, cube 24 and 36 on 6 faces).
\<close>

definition QUAD_VERTEX_COUNT :: nat where
  "QUAD_VERTEX_COUNT = 4"

definition TRIANGLE_VERTEX_COUNT :: nat where
  "TRIANGLE_VERTEX_COUNT = 3"

definition CUBE_VERTEX_COUNT :: nat where
  "CUBE_VERTEX_COUNT = 24"

definition CUBE_FACES :: nat where
  "CUBE_FACES = 6"

text \<open>
  What one call of \<open>Render\<close> hands to the GPU: the uploaded descriptor table, the shader,
  the matrix, the texture units as bound at the draw, the uploaded ranges of the staging
  arrays and the descriptor count given to the indirect multi-draw.
\<close>

record Submission =
  sub_wireframe :: bool
  sub_commands :: "DrawElementsCommand list"
  sub_shader :: shader_ref
  sub_proj_view :: mat4
  sub_texture_units :: "32 word list"
  sub_vertices :: "Vertex list"
  sub_indices :: "32 word list"
  sub_draw_count :: "32 word"

text \<open>
  \<open>RendererData\<close>. The staging arrays are given by their written ranges
  \<open>[vertices_base, vertices_ptr)\<close> and \<open>[index_base, index_ptr)\<close>. The last two fields
  are the GPU side: the texture units, which keep their binding from one draw to the
  next, and the submissions made so far.
\<close>

record RendererData =
  current_shader :: shader_ref
  index_offset :: "32 word"
  texture_slot_index :: "32 word"
  textures :: "32 word list"
  proj_view :: mat4
  camera :: Camera
  num_of_vertices_in_batch :: "32 word"
  draw_commands :: "DrawElementsCommand list"
  base_vert :: "32 word"
  draw_count :: "32 word"
  current_draw_command_vertex_size :: "32 word"
  vertices :: "Vertex list"
  indices :: "32 word list"
  current_material_id :: "32 word"
  flags :: int
  texture_units :: "32 word list"
  submissions :: "Submission list"

section \<open>Batch lifecycle\<close>

text \<open>
  \<open>memset(textures, NULL, n)\<close> on the slot table, \<open>n\<close> counted in table entries: the
  first \<open>n\<close> entries become 0. A count beyond the table's end writes outside the table in
  the source; the model stops at the end.
\<close>

definition memset_words :: "32 word list \<Rightarrow> nat \<Rightarrow> 32 word list" where
  "memset_words xs n = replicate (min n (length xs)) 0 @ drop n xs"

definition StartBatch :: "Config \<Rightarrow> RendererData \<Rightarrow> RendererData" where
  "StartBatch cfg s =
     s\<lparr>textures := memset_words (textures s) (unat (texture_slot_index s) * Texture_words cfg),
       texture_slot_index := 0,
       num_of_vertices_in_batch := 0,
       index_offset := 0,
       base_vert := 0,
       draw_count := 0,
       current_draw_command_vertex_size := 0,
       vertices := [],
       indices := []\<rparr>"

text \<open>
  The loop of \<open>Render\<close> over the occupied slots: a slot holding a non-zero handle is bound
  to the texture unit of the same number (\<open>glBindTextureUnit\<close>).
\<close>

definition bind_texture_units :: "32 word list \<Rightarrow> nat \<Rightarrow> 32 word list \<Rightarrow> 32 word list" where
  "bind_texture_units tex n units =
     fold (\<lambda>i u. if tex ! i \<noteq> 0 then u[i := tex ! i] else u) [0..<n] units"

definition Render :: "Config \<Rightarrow> RendererData \<Rightarrow> RendererData" where
  "Render cfg s =
     (let units = bind_texture_units (textures s) (unat (texture_slot_index s)) (texture_units s)
      in s\<lparr>texture_units := units,
           submissions := submissions s @
             [\<lparr>sub_wireframe = (flags s AND PolygonMode cfg \<noteq> 0),
               sub_commands = draw_commands s,
               sub_shader = current_shader s,
               sub_proj_view = proj_view s,
               sub_texture_units = units,
               sub_vertices = vertices s,
               sub_indices = indices s,
               sub_draw_count = draw_count s + 1\<rparr>]\<rparr>)"

definition NewBatch :: "Config \<Rightarrow> RendererData \<Rightarrow> RendererData" where
  "NewBatch cfg s = StartBatch cfg (Render cfg s)"

definition BeginScene :: "Config \<Rightarrow> Camera \<Rightarrow> int \<Rightarrow> RendererData \<Rightarrow> RendererData" where
  "BeginScene cfg cam fl s =
     StartBatch cfg
       (s\<lparr>flags := fl,
          proj_view := mat4_mul (GetProjection cam) (GetView cam),
          camera := cam,
          current_shader := DefaultShader,
          current_material_id := - 1\<rparr>)"

text \<open>
  \<open>MakeCommand\<close> writes the descriptor at index \<open>draw_count\<close>. An index beyond the table
  is undefined behaviour in the source and leaves the table as it is here.
\<close>

definition MakeCommand :: "RendererData \<Rightarrow> RendererData" where
  "MakeCommand s =
     s\<lparr>draw_commands := (draw_commands s)[unat (draw_count s) :=
          \<lparr>vertex_count = current_draw_command_vertex_size s,
           instance_count = 1,
           first_index = 0,
           base_vertex = base_vert s,
           base_instance = draw_count s\<rparr>]\<rparr>"

definition GoToNextDrawCommand :: "RendererData \<Rightarrow> RendererData" where
  "GoToNextDrawCommand s =
     s\<lparr>draw_count := draw_count s + 1,
       base_vert := base_vert s + num_of_vertices_in_batch s,
       current_draw_command_vertex_size := 0\<rparr>"

definition EndScene :: "Config \<Rightarrow> RendererData \<Rightarrow> RendererData" where
  "EndScene cfg s = Render cfg (GoToNextDrawCommand (MakeCommand s))"

definition SetShader :: "nat \<Rightarrow> RendererData \<Rightarrow> RendererData" where
  "SetShader shader s = s\<lparr>current_shader := UserShader shader\<rparr>"

definition SetShaderToDefualt :: "RendererData \<Rightarrow> RendererData" where
  "SetShaderToDefualt s = s\<lparr>current_shader := DefaultShader\<rparr>"

definition SetMaterialId :: "32 word \<Rightarrow> RendererData \<Rightarrow> RendererData" where
  "SetMaterialId m s = s\<lparr>current_material_id := m\<rparr>"

section \<open>Texture slot allocator\<close>

text \<open>
  The scan of \<open>CalculateTextureIndex\<close> runs over all occupied slots without a break, so
  the last matching slot wins; \<open>-1\<close> is left when none matches.
\<close>

definition scan_slots :: "32 word list \<Rightarrow> nat \<Rightarrow> 32 word \<Rightarrow> real" where
  "scan_slots tex n ident =
     fold (\<lambda>i t. if tex ! i = ident then float_of_uint32 (word_of_nat i) else t) [0..<n] (- 1)"

definition CalculateTextureIndex :: "Config \<Rightarrow> 32 word \<Rightarrow> RendererData \<Rightarrow> real \<times> RendererData" where
  "CalculateTextureIndex cfg ident s =
     (let t = scan_slots (textures s) (unat (texture_slot_index s)) ident
      in if t = - 1
         then (let s1 = s\<lparr>textures := (textures s)[unat (texture_slot_index s) := ident]\<rparr>;
                   t' = float_of_uint32 (texture_slot_index s1);
                   s2 = s1\<lparr>texture_slot_index := texture_slot_index s1 + 1\<rparr>
               in (t', if texture_slot_index s2 = MAX_TEXTURE_SLOTS cfg then NewBatch cfg s2 else s2))
         else (t, s))"

definition CalculateTextureIndex_ptr :: "Config \<Rightarrow> Texture \<Rightarrow> RendererData \<Rightarrow> real \<times> RendererData" where
  "CalculateTextureIndex_ptr cfg texture s = CalculateTextureIndex cfg (GetTextureId texture) s"

section \<open>Primitive emitters\<close>

text \<open>The capacity check every emitter starts with, for a requirement of \<open>k\<close> vertices.\<close>

definition ensure_capacity :: "Config \<Rightarrow> nat \<Rightarrow> RendererData \<Rightarrow> RendererData" where
  "ensure_capacity cfg k s =
     (if num_of_vertices_in_batch s + word_of_nat k > MAX_VERTEX_COUNT cfg
      then NewBatch cfg s else s)"

text \<open>One vertex through the write cursor: \<open>*vertices_ptr = vertex; vertices_ptr++\<close> and the count.\<close>

definition write_vertex :: "Vertex \<Rightarrow> RendererData \<Rightarrow> RendererData" where
  "write_vertex v s =
     s\<lparr>vertices := vertices s @ [v],
       num_of_vertices_in_batch := num_of_vertices_in_batch s + 1\<rparr>"

definition CalculateSquareIndices :: "RendererData \<Rightarrow> RendererData" where
  "CalculateSquareIndices s =
     s\<lparr>indices := indices s @
          [index_offset s, 1 + index_offset s, 2 + index_offset s,
           2 + index_offset s, 3 + index_offset s, index_offset s],
       index_offset := index_offset s + 4\<rparr>"

definition CalculateTriangleIndices :: "RendererData \<Rightarrow> RendererData" where
  "CalculateTriangleIndices s =
     s\<lparr>indices := indices s @ [index_offset s, 1 + index_offset s, 2 + index_offset s],
       index_offset := index_offset s + 3\<rparr>"

definition quad_vertex :: "Config \<Rightarrow> mat4 \<Rightarrow> vec4 \<Rightarrow> real \<Rightarrow> vec2 list \<Rightarrow> RendererData \<Rightarrow> nat \<Rightarrow> Vertex" where
  "quad_vertex cfg translation col tid tex_coords s i =
     \<lparr>position = vec3_of_vec4 (mat4_mul_vec4 translation (QUAD_POSITIONS cfg ! i)),
      color = col,
      texture_coordinates = tex_coords ! i,
      texture_id = tid,
      material_id = float_of_uint32 (current_material_id s)\<rparr>"

text \<open>The quad emitter on a transform: capacity check, indices, four vertices, size counter.\<close>

definition DrawQuad :: "Config \<Rightarrow> mat4 \<Rightarrow> vec4 \<Rightarrow> real \<Rightarrow> vec2 list \<Rightarrow> RendererData \<Rightarrow> RendererData" where
  "DrawQuad cfg translation col tid tex_coords s =
     (let s1 = ensure_capacity cfg QUAD_VERTEX_COUNT s;
          s2 = CalculateSquareIndices s1;
          s3 = fold (\<lambda>i st. write_vertex (quad_vertex cfg translation col tid tex_coords st i) st)
                    [0..<QUAD_VERTEX_COUNT] s2
      in s3\<lparr>current_draw_command_vertex_size := current_draw_command_vertex_size s3 + 6\<rparr>)"

definition GetModelMatrix :: "Config \<Rightarrow> RendererData \<Rightarrow> vec3 \<Rightarrow> vec2 \<Rightarrow> mat4" where
  "GetModelMatrix cfg s pos sz =
     (if flags s AND TopLeftCornerPos cfg \<noteq> 0
      then mat4_mul (glm_translate mat4_identity
                       (Vec3 (vec3_x pos + vec2_x sz / 2) (vec3_y pos + vec2_y sz / 2) (vec3_z pos)))
                    (glm_scale mat4_identity (Vec3 (vec2_x sz) (vec2_y sz) 1))
      else mat4_mul (glm_translate mat4_identity (Vec3 (vec3_x pos) (vec3_y pos) (vec3_z pos)))
                    (glm_scale mat4_identity (Vec3 (vec2_x sz) (vec2_y sz) 1)))"

definition triangle_vertex :: "Config \<Rightarrow> mat4 \<Rightarrow> vec4 \<Rightarrow> RendererData \<Rightarrow> nat \<Rightarrow> Vertex" where
  "triangle_vertex cfg translation col s i =
     \<lparr>position = vec3_of_vec4 (mat4_mul_vec4 translation (TRIANGLE_POSITIONS cfg ! i)),
      color = col,
      texture_coordinates = Vec2 0 0,
      texture_id = - 1,
      material_id = float_of_uint32 (current_material_id s)\<rparr>"

text \<open>Both triangle emitters test the capacity with the quad's vertex count.\<close>

definition DrawTriangle :: "Config \<Rightarrow> vec3 \<Rightarrow> vec2 \<Rightarrow> vec4 \<Rightarrow> RendererData \<Rightarrow> RendererData" where
  "DrawTriangle cfg pos sz col s =
     (let s1 = ensure_capacity cfg QUAD_VERTEX_COUNT s;
          s2 = CalculateTriangleIndices s1;
          translation = GetModelMatrix cfg s2 pos sz;
          s3 = fold (\<lambda>i st. write_vertex (triangle_vertex cfg translation col st i) st)
                    [0..<TRIANGLE_VERTEX_COUNT] s2
      in s3\<lparr>current_draw_command_vertex_size := current_draw_command_vertex_size s3 + 3\<rparr>)"

definition DrawTriangle_rotated ::
  "Config \<Rightarrow> vec3 \<Rightarrow> real \<Rightarrow> vec3 \<Rightarrow> vec2 \<Rightarrow> vec4 \<Rightarrow> RendererData \<Rightarrow> RendererData" where
  "DrawTriangle_rotated cfg pos rotation rotation_orientation sz col s =
     (let translation = glm_rotate (GetModelMatrix cfg s pos sz) (glm_radians rotation) rotation_orientation;
          s1 = ensure_capacity cfg QUAD_VERTEX_COUNT s;
          s2 = CalculateTriangleIndices s1;
          s3 = fold (\<lambda>i st. write_vertex (triangle_vertex cfg translation col st i) st)
                    [0..<TRIANGLE_VERTEX_COUNT] s2
      in s3\<lparr>current_draw_command_vertex_size := current_draw_command_vertex_size s3 + 3\<rparr>)"

definition DrawLine :: "Config \<Rightarrow> vec2 \<Rightarrow> vec2 \<Rightarrow> vec4 \<Rightarrow> real \<Rightarrow> RendererData \<Rightarrow> RendererData" where
  "DrawLine cfg p1 p2 col width s =
     (let x = vec2_x p2 - vec2_x p1;
          y = vec2_y p2 - vec2_y p1;
          trans = glm_translate mat4_identity (Vec3 (vec2_x p1 + x / 2) (vec2_y p1 + y / 2) 0);
          scale = glm_scale mat4_identity (Vec3 (sqrt (x * x + y * y)) width 1);
          rotate = glm_rotate mat4_identity (atan2f y x) (Vec3 0 0 1);
          model = mat4_mul (mat4_mul trans rotate) scale
      in DrawQuad cfg model col (- 1) (TEX_COORDS cfg) s)"

text \<open>The position-based quad entry points; a texture slot is assigned before the quad is emitted.\<close>

definition DrawQuad_color :: "Config \<Rightarrow> vec3 \<Rightarrow> vec2 \<Rightarrow> vec4 \<Rightarrow> RendererData \<Rightarrow> RendererData" where
  "DrawQuad_color cfg pos sz col s =
     (let model = GetModelMatrix cfg s pos sz
      in DrawQuad cfg model col (- 1) (TEX_COORDS cfg) s)"

definition DrawQuad_texture :: "Config \<Rightarrow> vec3 \<Rightarrow> vec2 \<Rightarrow> Texture \<Rightarrow> vec4 \<Rightarrow> RendererData \<Rightarrow> RendererData" where
  "DrawQuad_texture cfg pos sz texture col s =
     (let model = GetModelMatrix cfg s pos sz;
          (tid, s1) = CalculateTextureIndex_ptr cfg texture s
      in DrawQuad cfg model col tid (TEX_COORDS cfg) s1)"

definition DrawQuad_handle :: "Config \<Rightarrow> vec3 \<Rightarrow> vec2 \<Rightarrow> 32 word \<Rightarrow> vec4 \<Rightarrow> RendererData \<Rightarrow> RendererData" where
  "DrawQuad_handle cfg pos sz texture col s =
     (let model = GetModelMatrix cfg s pos sz;
          (tid, s1) = CalculateTextureIndex cfg texture s
      in DrawQuad cfg model col tid (TEX_COORDS cfg) s1)"

definition DrawQuad_coords :: "Config \<Rightarrow> vec3 \<Rightarrow> vec2 \<Rightarrow> vec2 list \<Rightarrow> vec4 \<Rightarrow> RendererData \<Rightarrow> RendererData" where
  "DrawQuad_coords cfg pos sz tex_coords col s =
     (let model = GetModelMatrix cfg s pos sz
      in DrawQuad cfg model col (- 1) tex_coords s)"

definition DrawQuad_texture_coords ::
  "Config \<Rightarrow> vec3 \<Rightarrow> vec2 \<Rightarrow> Texture \<Rightarrow> vec2 list \<Rightarrow> vec4 \<Rightarrow> RendererData \<Rightarrow> RendererData" where
  "DrawQuad_texture_coords cfg pos sz texture tex_coords col s =
     (let model = GetModelMatrix cfg s pos sz;
          (tid, s1) = CalculateTextureIndex_ptr cfg texture s
      in DrawQuad cfg model col tid tex_coords s1)"

text \<open>
  The transform of the plain-colour rotated quad, built from the position itself with Z
  forced to 0, and the transform of the other rotated variants, built on \<open>GetModelMatrix\<close>.
\<close>

definition rotated_color_model :: "vec3 \<Rightarrow> real \<Rightarrow> vec3 \<Rightarrow> vec2 \<Rightarrow> mat4" where
  "rotated_color_model pos rotation rotation_orientation sz =
     (let trans = glm_translate mat4_identity (Vec3 (vec3_x pos) (vec3_y pos) 0);
          scale = glm_scale mat4_identity (Vec3 (vec2_x sz) (vec2_y sz) 1);
          rotate = glm_rotate mat4_identity (glm_radians rotation) rotation_orientation
      in mat4_mul (mat4_mul trans rotate) scale)"

definition rotated_model :: "Config \<Rightarrow> RendererData \<Rightarrow> vec3 \<Rightarrow> real \<Rightarrow> vec3 \<Rightarrow> vec2 \<Rightarrow> mat4" where
  "rotated_model cfg s pos rotation rotation_orientation sz =
     glm_rotate (GetModelMatrix cfg s pos sz) (glm_radians rotation) rotation_orientation"

definition DrawRotatedQuad_color ::
  "Config \<Rightarrow> vec3 \<Rightarrow> real \<Rightarrow> vec3 \<Rightarrow> vec2 \<Rightarrow> vec4 \<Rightarrow> RendererData \<Rightarrow> RendererData" where
  "DrawRotatedQuad_color cfg pos rotation rotation_orientation sz col s =
     (let model = rotated_color_model pos rotation rotation_orientation sz
      in DrawQuad cfg model col (- 1) (TEX_COORDS cfg) s)"

definition DrawRotatedQuad_texture ::
  "Config \<Rightarrow> vec3 \<Rightarrow> real \<Rightarrow> vec3 \<Rightarrow> vec2 \<Rightarrow> Texture \<Rightarrow> vec4 \<Rightarrow> RendererData \<Rightarrow> RendererData" where
  "DrawRotatedQuad_texture cfg pos rotation rotation_orientation sz texture col s =
     (let model = rotated_model cfg s pos rotation rotation_orientation sz;
          (tid, s1) = CalculateTextureIndex_ptr cfg texture s
      in DrawQuad cfg model col tid (TEX_COORDS cfg) s1)"

definition DrawRotatedQuad_coords ::
  "Config \<Rightarrow> vec3 \<Rightarrow> real \<Rightarrow> vec3 \<Rightarrow> vec2 \<Rightarrow> vec2 list \<Rightarrow> vec4 \<Rightarrow> RendererData \<Rightarrow> RendererData" where
  "DrawRotatedQuad_coords cfg pos rotation rotation_orientation sz tex_coords col s =
     (let model = rotated_model cfg s pos rotation rotation_orientation sz
      in DrawQuad cfg model col (- 1) tex_coords s)"

definition DrawRotatedQuad_coords_texture ::
  "Config \<Rightarrow> vec3 \<Rightarrow> real \<Rightarrow> vec3 \<Rightarrow> vec2 \<Rightarrow> vec2 list \<Rightarrow> Texture \<Rightarrow> vec4 \<Rightarrow> RendererData \<Rightarrow> RendererData" where
  "DrawRotatedQuad_coords_texture cfg pos rotation rotation_orientation sz tex_coords texture col s =
     (let model = rotated_model cfg s pos rotation rotation_orientation sz;
          (tid, s1) = CalculateTextureIndex_ptr cfg texture s
      in DrawQuad cfg model col tid tex_coords s1)"

definition cube_vertex :: "Config \<Rightarrow> mat4 \<Rightarrow> vec4 \<Rightarrow> real \<Rightarrow> vec2 list \<Rightarrow> RendererData \<Rightarrow> nat \<Rightarrow> Vertex" where
  "cube_vertex cfg translation col tid tex_coords s i =
     \<lparr>position = vec3_of_vec4 (mat4_mul_vec4 translation
                   (Vec4 (vec3_x (CUBE_POSITIONS cfg ! i)) (vec3_y (CUBE_POSITIONS cfg ! i))
                         (vec3_z (CUBE_POSITIONS cfg ! i)) 1)),
      color = col,
      texture_coordinates = tex_coords ! (i mod 4),
      texture_id = tid,
      material_id = float_of_uint32 (current_material_id s)\<rparr>"

text \<open>
  The cube emitter: six quads' worth of indices, then 24 vertices. The per-face base
  pointer computed in the source's loop is never used and is left out.
\<close>

definition DrawCube :: "Config \<Rightarrow> mat4 \<Rightarrow> vec4 \<Rightarrow> real \<Rightarrow> vec2 list \<Rightarrow> RendererData \<Rightarrow> RendererData" where
  "DrawCube cfg translation col tid tex_coords s =
     (let s1 = ensure_capacity cfg CUBE_VERTEX_COUNT s;
          s2 = fold (\<lambda>i st. CalculateSquareIndices st) [0..<CUBE_FACES] s1;
          s3 = fold (\<lambda>i st. write_vertex (cube_vertex cfg translation col tid tex_coords st i) st)
                    [0..<CUBE_VERTEX_COUNT] s2
      in s3\<lparr>current_draw_command_vertex_size := current_draw_command_vertex_size s3 + 36\<rparr>)"

definition cube_model :: "vec3 \<Rightarrow> vec3 \<Rightarrow> mat4" where
  "cube_model pos sz =
     mat4_mul (glm_translate mat4_identity (Vec3 (vec3_x pos) (vec3_y pos) (vec3_z pos)))
              (glm_scale mat4_identity (Vec3 (vec3_x sz) (vec3_y sz) (vec3_z sz)))"

definition DrawCube_color :: "Config \<Rightarrow> vec3 \<Rightarrow> vec3 \<Rightarrow> vec4 \<Rightarrow> RendererData \<Rightarrow> RendererData" where
  "DrawCube_color cfg pos sz col s = DrawCube cfg (cube_model pos sz) col (- 1) (TEX_COORDS cfg) s"

definition DrawCube_texture :: "Config \<Rightarrow> vec3 \<Rightarrow> vec3 \<Rightarrow> Texture \<Rightarrow> vec4 \<Rightarrow> RendererData \<Rightarrow> RendererData" where
  "DrawCube_texture cfg pos sz texture col s =
     (let model = cube_model pos sz;
          (tid, s1) = CalculateTextureIndex_ptr cfg texture s
      in DrawCube cfg model col tid (TEX_COORDS cfg) s1)"

subsection \<open>Text\<close>

text \<open>
  One character of \<open>RenderText\<close> up to the point where its vertices are written: the
  capacity check, the quad's indices, then the slot of the font's atlas texture.
\<close>

definition glyph_prepare :: "Config \<Rightarrow> Font \<Rightarrow> RendererData \<Rightarrow> real \<times> RendererData" where
  "glyph_prepare cfg font s =
     (let s1 = ensure_capacity cfg QUAD_VERTEX_COUNT s;
          s2 = CalculateSquareIndices s1
      in CalculateTextureIndex_ptr cfg (font_texture font) s2)"

definition glyph_vertex :: "vec4 list \<Rightarrow> vec2 list \<Rightarrow> vec4 \<Rightarrow> real \<Rightarrow> RendererData \<Rightarrow> nat \<Rightarrow> Vertex" where
  "glyph_vertex corners coords col tid s i =
     \<lparr>position = vec3_of_vec4 (corners ! i),
      color = col,
      texture_coordinates = coords ! i,
      texture_id = tid,
      material_id = float_of_uint32 (current_material_id s)\<rparr>"

text \<open>One iteration of the loop of \<open>RenderText\<close>: the new pen position and the new state.\<close>

definition RenderText_glyph ::
  "Config \<Rightarrow> Font \<Rightarrow> char \<Rightarrow> real \<Rightarrow> real \<Rightarrow> vec2 \<Rightarrow> vec4 \<Rightarrow> RendererData \<Rightarrow> real \<times> RendererData" where
  "RenderText_glyph cfg font c x y scale col s =
     (let character = glyphs font c;
          normalized_width =
            vec2_x (CalculateSpriteCoordinate cfg (Vec2 (real_of_int (fst (glyph_size character))) 0)
                      (font_width font) (font_height font))
            - (2 / 100000) * font_size font;
          xpos = x + real_of_int (fst (glyph_bearing character)) * vec2_x scale;
          ypos = y - real_of_int (snd (glyph_size character) - snd (glyph_bearing character)) * vec2_y scale;
          w = real_of_int (fst (glyph_size character)) * vec2_x scale;
          h = real_of_int (snd (glyph_size character)) * vec2_y scale;
          clean = (1 / 100000) * font_size font;
          coords = [Vec2 (glyph_offset character + clean) 1,
                    Vec2 (glyph_offset character + normalized_width + clean) 1,
                    Vec2 (glyph_offset character + normalized_width + clean) 0,
                    Vec2 (glyph_offset character + clean) 0];
          (tex_id, s3) = glyph_prepare cfg font s;
          corners = [Vec4 xpos ypos 0 1, Vec4 (xpos + w) ypos 0 1,
                     Vec4 (xpos + w) (ypos + h) 0 1, Vec4 xpos (ypos + h) 0 1];
          s4 = fold (\<lambda>i st. write_vertex (glyph_vertex corners coords col tex_id st i) st)
                    [0..<QUAD_VERTEX_COUNT] s3;
          s5 = s4\<lparr>current_draw_command_vertex_size := current_draw_command_vertex_size s4 + 6\<rparr>
      in (x + real_of_int (drop_bit 6 (fst (glyph_advance character))) * vec2_x scale, s5))"

fun RenderText_loop ::
  "Config \<Rightarrow> Font \<Rightarrow> string \<Rightarrow> real \<Rightarrow> real \<Rightarrow> vec2 \<Rightarrow> vec4 \<Rightarrow> RendererData \<Rightarrow> RendererData" where
  "RenderText_loop cfg font [] x y scale col s = s"
| "RenderText_loop cfg font (c # cs) x y scale col s =
     (case RenderText_glyph cfg font c x y scale col s of
        (x', s') \<Rightarrow> RenderText_loop cfg font cs x' y scale col s')"

definition RenderText :: "Config \<Rightarrow> Font \<Rightarrow> string \<Rightarrow> vec2 \<Rightarrow> vec2 \<Rightarrow> vec4 \<Rightarrow> RendererData \<Rightarrow> RendererData" where
  "RenderText cfg font text pos scale col s =
     RenderText_loop cfg font text (vec2_x pos) (vec2_y pos) scale col s"

section \<open>Scenes as sequences of calls\<close>

datatype call =
    CBeginScene Camera int
  | CEndScene
  | CSetShader nat
  | CSetShaderToDefualt
  | CSetMaterialId "32 word"
  | CDrawQuad mat4 vec4 real "vec2 list"
  | CDrawQuad_color vec3 vec2 vec4
  | CDrawQuad_texture vec3 vec2 Texture vec4
  | CDrawQuad_handle vec3 vec2 "32 word" vec4
  | CDrawQuad_coords vec3 vec2 "vec2 list" vec4
  | CDrawQuad_texture_coords vec3 vec2 Texture "vec2 list" vec4
  | CDrawRotatedQuad_color vec3 real vec3 vec2 vec4
  | CDrawRotatedQuad_texture vec3 real vec3 vec2 Texture vec4
  | CDrawRotatedQuad_coords vec3 real vec3 vec2 "vec2 list" vec4
  | CDrawRotatedQuad_coords_texture vec3 real vec3 vec2 "vec2 list" Texture vec4
  | CDrawTriangle vec3 vec2 vec4
  | CDrawTriangle_rotated vec3 real vec3 vec2 vec4
  | CDrawLine vec2 vec2 vec4 real
  | CDrawCube mat4 vec4 real "vec2 list"
  | CDrawCube_color vec3 vec3 vec4
  | CDrawCube_texture vec3 vec3 Texture vec4
  | CRenderText Font string vec2 vec2 vec4

fun exec :: "Config \<Rightarrow> RendererData \<Rightarrow> call \<Rightarrow> RendererData" where
  "exec cfg s (CBeginScene cam fl) = BeginScene cfg cam fl s"
| "exec cfg s CEndScene = EndScene cfg s"
| "exec cfg s (CSetShader sh) = SetShader sh s"
| "exec cfg s CSetShaderToDefualt = SetShaderToDefualt s"
| "exec cfg s (CSetMaterialId m) = SetMaterialId m s"
| "exec cfg s (CDrawQuad m col tid tc) = DrawQuad cfg m col tid tc s"
| "exec cfg s (CDrawQuad_color pos sz col) = DrawQuad_color cfg pos sz col s"
| "exec cfg s (CDrawQuad_texture pos sz tex col) = DrawQuad_texture cfg pos sz tex col s"
| "exec cfg s (CDrawQuad_handle pos sz tex col) = DrawQuad_handle cfg pos sz tex col s"
| "exec cfg s (CDrawQuad_coords pos sz tc col) = DrawQuad_coords cfg pos sz tc col s"
| "exec cfg s (CDrawQuad_texture_coords pos sz tex tc col) = DrawQuad_texture_coords cfg pos sz tex tc col s"
| "exec cfg s (CDrawRotatedQuad_color pos r ax sz col) = DrawRotatedQuad_color cfg pos r ax sz col s"
| "exec cfg s (CDrawRotatedQuad_texture pos r ax sz tex col) = DrawRotatedQuad_texture cfg pos r ax sz tex col s"
| "exec cfg s (CDrawRotatedQuad_coords pos r ax sz tc col) = DrawRotatedQuad_coords cfg pos r ax sz tc col s"
| "exec cfg s (CDrawRotatedQuad_coords_texture pos r ax sz tc tex col) =
     DrawRotatedQuad_coords_texture cfg pos r ax sz tc tex col s"
| "exec cfg s (CDrawTriangle pos sz col) = DrawTriangle cfg pos sz col s"
| "exec cfg s (CDrawTriangle_rotated pos r ax sz col) = DrawTriangle_rotated cfg pos r ax sz col s"
| "exec cfg s (CDrawLine p1 p2 col w) = DrawLine cfg p1 p2 col w s"
| "exec cfg s (CDrawCube m col tid tc) = DrawCube cfg m col tid tc s"
| "exec cfg s (CDrawCube_color pos sz col) = DrawCube_color cfg pos sz col s"
| "exec cfg s (CDrawCube_texture pos sz tex col) = DrawCube_texture cfg pos sz tex col s"
| "exec cfg s (CRenderText font text pos scale col) = RenderText cfg font text pos scale col s"

definition run :: "Config \<Rightarrow> call list \<Rightarrow> RendererData \<Rightarrow> RendererData" where
  "run cfg cs s = foldl (exec cfg) s cs"

text \<open>
  The renderer's data before the first scene: the statically zero-initialised structure
  with its default member initialisers, and nothing submitted.
\<close>

definition zero_command :: DrawElementsCommand where
  "zero_command = \<lparr>vertex_count = 0, instance_count = 0, first_index = 0, base_vertex = 0, base_instance = 0\<rparr>"

definition Init_state :: "Config \<Rightarrow> RendererData" where
  "Init_state cfg =
     \<lparr>current_shader = NoShader,
      index_offset = 0,
      texture_slot_index = 0,
      textures = replicate (unat (MAX_TEXTURE_SLOTS cfg)) 0,
      proj_view = mat4_identity,
      camera = \<lparr>GetProjection = mat4_identity, GetView = mat4_identity\<rparr>,
      num_of_vertices_in_batch = 0,
      draw_commands = replicate (MAX_DRAW_COMMANDS cfg) zero_command,
      base_vert = 0,
      draw_count = 0,
      current_draw_command_vertex_size = 0,
      vertices = [],
      indices = [],
      current_material_id = - 1,
      flags = 0,
      texture_units = replicate (unat (MAX_TEXTURE_SLOTS cfg)) 0,
      submissions = []\<rparr>"

section \<open>Notions used in the properties\<close>

text \<open>
  The vertex limit leaves room for the largest primitive, and the capacity test
  \<open>num_of_vertices_in_batch + count > MAX_VERTEX_COUNT\<close> cannot wrap around.
\<close>

definition vertex_limit_ok :: "Config \<Rightarrow> bool" where
  "vertex_limit_ok cfg =
     (CUBE_VERTEX_COUNT \<le> unat (MAX_VERTEX_COUNT cfg)
      \<and> unat (MAX_VERTEX_COUNT cfg) + CUBE_VERTEX_COUNT < 2 ^ 32)"

text \<open>The staged vertices are counted by \<open>num_of_vertices_in_batch\<close> and fit the staging array.\<close>

definition within_capacity :: "Config \<Rightarrow> RendererData \<Rightarrow> bool" where
  "within_capacity cfg s =
     (length (vertices s) = unat (num_of_vertices_in_batch s)
      \<and> unat (num_of_vertices_in_batch s) \<le> unat (MAX_VERTEX_COUNT cfg))"

text \<open>\<open>vertices_in_batch + k \<le> MAX_VERTEX_COUNT\<close>.\<close>

definition room_for :: "Config \<Rightarrow> nat \<Rightarrow> RendererData \<Rightarrow> bool" where
  "room_for cfg k s = (unat (num_of_vertices_in_batch s) + k \<le> unat (MAX_VERTEX_COUNT cfg))"

text \<open>
  A flush-and-restart from \<open>s\<close> to \<open>s'\<close>: one more submission, which uploads the vertices
  and indices staged in \<open>s\<close>, after the earlier submissions; and \<open>s'\<close> is an empty batch.
\<close>

definition flushed_and_restarted :: "RendererData \<Rightarrow> RendererData \<Rightarrow> bool" where
  "flushed_and_restarted s s' =
     (length (submissions s') = length (submissions s) + 1
      \<and> take (length (submissions s)) (submissions s') = submissions s
      \<and> sub_vertices (last (submissions s')) = vertices s
      \<and> sub_indices (last (submissions s')) = indices s
      \<and> vertices s' = [] \<and> indices s' = []
      \<and> num_of_vertices_in_batch s' = 0 \<and> index_offset s' = 0)"

text \<open>A call that changes the active material.\<close>

definition sets_material :: "call \<Rightarrow> bool" where
  "sets_material c = (case c of CSetMaterialId m \<Rightarrow> True | _ \<Rightarrow> False)"

text \<open>A vertex carrying the float made from the unsigned value \<open>0xFFFFFFFF\<close>.\<close>

definition unset_stamp :: "Vertex \<Rightarrow> bool" where
  "unset_stamp v = (material_id v = 4294967296)"

text \<open>
  No material is active, and every staged vertex and every vertex submitted after the
  first \<open>n0\<close> submissions carries the stamp above.
\<close>

definition stamped_unset :: "nat \<Rightarrow> RendererData \<Rightarrow> bool" where
  "stamped_unset n0 s =
     (current_material_id s = - 1
      \<and> list_all unset_stamp (vertices s)
      \<and> list_all (\<lambda>sub. list_all unset_stamp (sub_vertices sub)) (drop n0 (submissions s)))"

text \<open>\<open>k\<close> calls of the slot allocator with one handle: the returned slots and the final state.\<close>

fun alloc_repeat :: "Config \<Rightarrow> 32 word \<Rightarrow> nat \<Rightarrow> RendererData \<Rightarrow> real list \<times> RendererData" where
  "alloc_repeat cfg ident 0 s = ([], s)"
| "alloc_repeat cfg ident (Suc k) s =
     (case CalculateTextureIndex cfg ident s of
        (t, s1) \<Rightarrow> (case alloc_repeat cfg ident k s1 of (ts, s2) \<Rightarrow> (t # ts, s2)))"

text \<open>Slot \<open>j\<close> is occupied in the current batch and holds the handle.\<close>

definition slot_of :: "RendererData \<Rightarrow> 32 word \<Rightarrow> nat \<Rightarrow> bool" where
  "slot_of s ident j = (j < unat (texture_slot_index s) \<and> textures s ! j = ident)"

text \<open>
  The descriptors an indirect multi-draw executes: the first \<open>sub_draw_count\<close> entries
  of the uploaded table; and the number of indices they cover.
\<close>

definition executed_commands :: "Submission \<Rightarrow> DrawElementsCommand list" where
  "executed_commands sub = take (unat (sub_draw_count sub)) (sub_commands sub)"

definition covered_indices :: "Submission \<Rightarrow> nat" where
  "covered_indices sub = sum_list (map (\<lambda>c. unat (vertex_count c)) (executed_commands sub))"

text \<open>The handle bound, at the draw, to the texture unit a vertex's slot index refers to.\<close>

definition sampled_texture :: "Submission \<Rightarrow> Vertex \<Rightarrow> 32 word" where
  "sampled_texture sub v = sub_texture_units sub ! nat \<lfloor>texture_id v\<rfloor>"

subsection \<open>A small configuration\<close>

text \<open>
  An instance of the header's limits small enough to run whole scenes: room for 24
  vertices (six quads or one cube) and two texture slots.
\<close>

definition demo_config :: Config where
  "demo_config =
     \<lparr>MAX_VERTEX_COUNT = 24,
      MAX_INDEX_COUNT = 36,
      MAX_TEXTURE_SLOTS = 2,
      MAX_DRAW_COMMANDS = 4,
      PolygonMode = 1,
      TopLeftCornerPos = 2,
      QUAD_POSITIONS = [Vec4 (- (1 / 2)) (- (1 / 2)) 0 1, Vec4 (1 / 2) (- (1 / 2)) 0 1,
                        Vec4 (1 / 2) (1 / 2) 0 1, Vec4 (- (1 / 2)) (1 / 2) 0 1],
      TRIANGLE_POSITIONS = [Vec4 (- (1 / 2)) (- (1 / 2)) 0 1, Vec4 (1 / 2) (- (1 / 2)) 0 1,
                            Vec4 0 (1 / 2) 0 1],
      CUBE_POSITIONS = concat (map (\<lambda>z. [Vec3 (- (1 / 2)) (- (1 / 2)) z, Vec3 (1 / 2) (- (1 / 2)) z,
                                           Vec3 (1 / 2) (1 / 2) z, Vec3 (- (1 / 2)) (1 / 2) z])
                                   [1 / 2, - (1 / 2), 1 / 2, - (1 / 2), 1 / 2, - (1 / 2)]),
      TEX_COORDS = [Vec2 0 0, Vec2 1 0, Vec2 1 1, Vec2 0 1],
      Texture_words = 1,
      CalculateSpriteCoordinate = (\<lambda>sz w h. Vec2 (vec2_x sz / w) (vec2_y sz / h))\<rparr>"

definition demo_camera :: Camera where
  "demo_camera = \<lparr>GetProjection = mat4_identity, GetView = mat4_identity\<rparr>"

definition white :: vec4 where
  "white = Vec4 1 1 1 1"

text \<open>A state of the small configuration with 21 vertices staged: three slots are left.\<close>

definition three_slots_left :: RendererData where
  "three_slots_left =
     (Init_state demo_config)
       \<lparr>vertices := replicate 21
           \<lparr>position = Vec3 0 0 0, color = white, texture_coordinates = Vec2 0 0,
            texture_id = - 1, material_id = 0\<rparr>,
        num_of_vertices_in_batch := 21\<rparr>"

text \<open>The state right after \<open>BeginScene\<close> in the first scene.\<close>

definition fresh_scene :: RendererData where
  "fresh_scene = BeginScene demo_config demo_camera 0 (Init_state demo_config)"

definition plain_quad :: call where
  "plain_quad = CDrawQuad_color (Vec3 0 0 0) (Vec2 1 1) white"

text \<open>The first scene after initialisation, with one quad.\<close>

definition one_quad_scene :: "call list" where
  "one_quad_scene = [CBeginScene demo_camera 0, plain_quad, CEndScene]"

text \<open>The first scene after initialisation, with one quad more than a batch holds.\<close>

definition overflow_scene :: "call list" where
  "overflow_scene =
     [CBeginScene demo_camera 0,
      plain_quad, plain_quad, plain_quad, plain_quad, plain_quad, plain_quad, plain_quad,
      CEndScene]"

text \<open>A quad textured with handle \<open>h\<close>; the red component of its colour is \<open>h\<close>, to tell the quads apart.\<close>

definition tagged_quad :: "32 word \<Rightarrow> call" where
  "tagged_quad h = CDrawQuad_handle (Vec3 0 0 0) (Vec2 1 1) h (Vec4 (real (unat h)) 0 0 1)"

text \<open>
  A scene that leaves one slot free, and the same scene followed by three quads of one
  new handle.
\<close>

definition one_slot_left_scene :: "call list" where
  "one_slot_left_scene = [CBeginScene demo_camera 0, tagged_quad 11]"

definition repeated_handle_scene :: "call list" where
  "repeated_handle_scene =
     [CBeginScene demo_camera 0, tagged_quad 11, tagged_quad 12, tagged_quad 12, tagged_quad 12]"

text \<open>A scene with twice as many distinct textures as there are slots.\<close>

definition four_texture_scene :: "call list" where
  "four_texture_scene =
     [CBeginScene demo_camera 0, tagged_quad 11, tagged_quad 12, tagged_quad 13, tagged_quad 14, CEndScene]"

definition demo_font :: Font where
  "demo_font =
     \<lparr>glyphs = (\<lambda>c. \<lparr>glyph_size = (8, 10), glyph_bearing = (1, 9), glyph_advance = (640, 0),
                      glyph_offset = 0\<rparr>),
      font_width = 128, font_height = 16, font_size = 16,
      font_texture = \<lparr>GetTextureId = 12\<rparr>\<rparr>"

text \<open>A scene in which the atlas texture of a text takes the last free slot.\<close>

definition glyph_scene :: "call list" where
  "glyph_scene =
     [CBeginScene demo_camera 0, tagged_quad 11,
      CRenderText demo_font ''A'' (Vec2 0 0) (Vec2 1 1) white, CEndScene]"

section \<open>Helper lemmas\<close>

subsection \<open>Machine arithmetic of the capacity test\<close>

lemma unat_add_small:
  fixes n :: "32 word"
  assumes "unat n + k < 2 ^ 32"
  shows "unat (n + word_of_nat k) = unat n + k"
proof -
  have k: "unat (word_of_nat k :: 32 word) = k"
    using assms by (simp add: unat_of_nat)
  have "unat n + unat (word_of_nat k :: 32 word) < 2 ^ LENGTH(32)"
    using assms k by simp
  then show ?thesis
    using k by (simp add: unat_add_lem [THEN iffD1])
qed

lemma capacity_test:
  fixes n m :: "32 word"
  assumes "unat n + k < 2 ^ 32"
  shows "(m < n + word_of_nat k) = (unat m < unat n + k)"
  by (simp add: word_less_nat_alt unat_add_small [OF assms])

subsection \<open>Closed forms of the batch operations\<close>

lemma NewBatch_fields:
  "vertices (NewBatch cfg s) = []"
  "indices (NewBatch cfg s) = []"
  "num_of_vertices_in_batch (NewBatch cfg s) = 0"
  "index_offset (NewBatch cfg s) = 0"
  "texture_slot_index (NewBatch cfg s) = 0"
  "draw_count (NewBatch cfg s) = 0"
  "base_vert (NewBatch cfg s) = 0"
  "current_draw_command_vertex_size (NewBatch cfg s) = 0"
  "draw_commands (NewBatch cfg s) = draw_commands s"
  "current_material_id (NewBatch cfg s) = current_material_id s"
  "flags (NewBatch cfg s) = flags s"
  "current_shader (NewBatch cfg s) = current_shader s"
  "proj_view (NewBatch cfg s) = proj_view s"
  "submissions (NewBatch cfg s) = submissions (Render cfg s)"
  "texture_units (NewBatch cfg s) = texture_units (Render cfg s)"
  by (simp_all add: NewBatch_def StartBatch_def Render_def Let_def)

lemma ensure_capacity_nat:
  assumes "unat (num_of_vertices_in_batch s) + k < 2 ^ 32"
  shows "ensure_capacity cfg k s =
           (if unat (MAX_VERTEX_COUNT cfg) < unat (num_of_vertices_in_batch s) + k
            then NewBatch cfg s else s)"
  by (simp add: ensure_capacity_def capacity_test [OF assms])

lemma write_loop_closed:
  assumes "\<And>st st' i. current_material_id st = current_material_id st' \<Longrightarrow> f st i = f st' i"
  shows "fold (\<lambda>i st. write_vertex (f st i) st) xs s
         = s\<lparr>vertices := vertices s @ map (f s) xs,
             num_of_vertices_in_batch := num_of_vertices_in_batch s + word_of_nat (length xs)\<rparr>"
proof (induction xs arbitrary: s)
  case Nil
  show ?case by simp
next
  case (Cons x xs)
  have "f (write_vertex (f s x) s) = f s"
    by (rule ext, rule assms) (simp add: write_vertex_def)
  with Cons show ?case
    by (simp add: write_vertex_def add.assoc add.commute)
qed

lemma DrawQuad_closed:
  "DrawQuad cfg m col tid tc s =
     (let s1 = ensure_capacity cfg QUAD_VERTEX_COUNT s
      in s1\<lparr>indices := indices s1 @ map (\<lambda>k. k + index_offset s1) [0, 1, 2, 2, 3, 0],
            index_offset := index_offset s1 + 4,
            vertices := vertices s1 @ map (quad_vertex cfg m col tid tc s1) [0..<QUAD_VERTEX_COUNT],
            num_of_vertices_in_batch := num_of_vertices_in_batch s1 + 4,
            current_draw_command_vertex_size := current_draw_command_vertex_size s1 + 6\<rparr>)"
proof -
  have q: "\<And>st st' i. current_material_id st = current_material_id st' \<Longrightarrow>
        quad_vertex cfg m col tid tc st i = quad_vertex cfg m col tid tc st' i"
    by (simp add: quad_vertex_def)
  have e: "quad_vertex cfg m col tid tc (CalculateSquareIndices st) = quad_vertex cfg m col tid tc st" for st
    by (rule ext, rule q) (simp add: CalculateSquareIndices_def)
  note w = write_loop_closed [of "quad_vertex cfg m col tid tc", OF q]
  show ?thesis
    by (simp add: DrawQuad_def Let_def w e QUAD_VERTEX_COUNT_def)
       (simp add: CalculateSquareIndices_def quad_vertex_def)
qed

subsection \<open>Transforms\<close>

lemma col3_rotate: "col3 (glm_rotate m a v) = col3 m"
  by (simp add: glm_rotate_def Let_def)

lemma translation_GetModelMatrix:
  "translation_of (GetModelMatrix cfg s pos sz)
     = (if flags s AND TopLeftCornerPos cfg \<noteq> 0
        then Vec3 (vec3_x pos + vec2_x sz / 2) (vec3_y pos + vec2_y sz / 2) (vec3_z pos)
        else pos)"
  by (cases pos)
     (simp add: GetModelMatrix_def translation_of_def mat4_mul_def mat4_mul_vec4_def
        glm_translate_def glm_scale_def mat4_identity_def vec4_add_def vec4_smul_def vec3_of_vec4_def)

section \<open>The index sequence of a quad\<close>

text \<open>
  C6. Every quad appends exactly six indices, the sequence 0,1,2,2,3,0 shifted by the
  running index offset of the batch the quad is written to, and the running offset then
  advances by four. This holds for the index generator itself and for the quad emitter,
  where the batch is the one left by the capacity check.
\<close>

theorem quad_index_sequence:
  "indices (CalculateSquareIndices s) = indices s @ map (\<lambda>k. k + index_offset s) [0, 1, 2, 2, 3, 0]
   \<and> index_offset (CalculateSquareIndices s) = index_offset s + 4
   \<and> (let s1 = ensure_capacity cfg QUAD_VERTEX_COUNT s
      in indices (DrawQuad cfg m col tid tc s) = indices s1 @ map (\<lambda>k. k + index_offset s1) [0, 1, 2, 2, 3, 0]
       \<and> length (indices (DrawQuad cfg m col tid tc s)) = length (indices s1) + 6
       \<and> index_offset (DrawQuad cfg m col tid tc s) = index_offset s1 + 4)"
  by (simp add: DrawQuad_closed CalculateSquareIndices_def Let_def)

section \<open>Placement of quads\<close>

text \<open>
  C7. After \<open>BeginScene\<close> with flags \<open>fl\<close>, the position-based \<open>DrawQuad\<close> at position
  (10,20,0) with size (4,6) emits its quad through the model transform of
  \<open>GetModelMatrix\<close>, whose translation is (12,23,0) when \<open>fl\<close> has the top-left-corner
  flag and (10,20,0) otherwise.
\<close>

theorem quad_model_translation:
  "DrawQuad_color cfg (Vec3 10 20 0) (Vec2 4 6) col (BeginScene cfg cam fl s)
     = DrawQuad cfg (GetModelMatrix cfg (BeginScene cfg cam fl s) (Vec3 10 20 0) (Vec2 4 6))
         col (- 1) (TEX_COORDS cfg) (BeginScene cfg cam fl s)
   \<and> translation_of (GetModelMatrix cfg (BeginScene cfg cam fl s) (Vec3 10 20 0) (Vec2 4 6))
     = (if fl AND TopLeftCornerPos cfg \<noteq> 0 then Vec3 12 23 0 else Vec3 10 20 0)"
  by (simp add: DrawQuad_color_def translation_GetModelMatrix)
     (simp add: BeginScene_def StartBatch_def)

text \<open>
  C10. The plain-colour rotated quad is emitted through a transform whose translation is
  the given position with Z forced to 0, whatever the flags; the textured rotated quad is
  emitted through the rotated model matrix, whose translation is the position shifted by
  half the size on X and Y when the top-left-corner flag is set, and the position itself
  otherwise.
\<close>

theorem rotated_quad_translation:
  "DrawRotatedQuad_color cfg pos r ax sz col s
     = DrawQuad cfg (rotated_color_model pos r ax sz) col (- 1) (TEX_COORDS cfg) s
   \<and> translation_of (rotated_color_model pos r ax sz) = Vec3 (vec3_x pos) (vec3_y pos) 0
   \<and> DrawRotatedQuad_texture cfg pos r ax sz tex col s
     = DrawQuad cfg (rotated_model cfg s pos r ax sz) col
         (fst (CalculateTextureIndex_ptr cfg tex s)) (TEX_COORDS cfg)
         (snd (CalculateTextureIndex_ptr cfg tex s))
   \<and> translation_of (rotated_model cfg s pos r ax sz)
     = (if flags s AND TopLeftCornerPos cfg \<noteq> 0
        then Vec3 (vec3_x pos + vec2_x sz / 2) (vec3_y pos + vec2_y sz / 2) (vec3_z pos)
        else pos)"
proof -
  have a: "translation_of (rotated_color_model pos r ax sz) = Vec3 (vec3_x pos) (vec3_y pos) 0"
    by (simp add: rotated_color_model_def translation_of_def col3_rotate Let_def mat4_mul_def
        mat4_mul_vec4_def glm_translate_def glm_scale_def mat4_identity_def vec4_add_def
        vec4_smul_def vec3_of_vec4_def)
  have b: "translation_of (rotated_model cfg s pos r ax sz) = translation_of (GetModelMatrix cfg s pos sz)"
    by (simp add: rotated_model_def translation_of_def col3_rotate)
  show ?thesis
    by (simp add: a b translation_GetModelMatrix DrawRotatedQuad_color_def
        DrawRotatedQuad_texture_def Let_def split_beta)
qed

section \<open>Closed forms of the other emitters\<close>

lemma DrawTriangle_closed:
  "DrawTriangle cfg pos sz col s =
     (let s1 = ensure_capacity cfg QUAD_VERTEX_COUNT s
      in s1\<lparr>indices := indices s1 @ map (\<lambda>k. k + index_offset s1) [0, 1, 2],
            index_offset := index_offset s1 + 3,
            vertices := vertices s1 @ map (triangle_vertex cfg (GetModelMatrix cfg s1 pos sz) col s1)
                                          [0..<TRIANGLE_VERTEX_COUNT],
            num_of_vertices_in_batch := num_of_vertices_in_batch s1 + 3,
            current_draw_command_vertex_size := current_draw_command_vertex_size s1 + 3\<rparr>)"
proof -
  have q: "\<And>m st st' i. current_material_id st = current_material_id st' \<Longrightarrow>
        triangle_vertex cfg m col st i = triangle_vertex cfg m col st' i"
    by (simp add: triangle_vertex_def)
  have g: "GetModelMatrix cfg (CalculateTriangleIndices st) pos sz = GetModelMatrix cfg st pos sz" for st
    by (simp add: GetModelMatrix_def CalculateTriangleIndices_def)
  have e: "triangle_vertex cfg m col (CalculateTriangleIndices st) = triangle_vertex cfg m col st" for st m
    by (rule ext, rule q) (simp add: CalculateTriangleIndices_def)
  note w = write_loop_closed [of "triangle_vertex cfg m col" for m, OF q]
  show ?thesis
    by (simp add: DrawTriangle_def Let_def w e g TRIANGLE_VERTEX_COUNT_def)
       (simp add: CalculateTriangleIndices_def triangle_vertex_def)
qed

lemma DrawTriangle_rotated_closed:
  "DrawTriangle_rotated cfg pos r ax sz col s =
     (let s1 = ensure_capacity cfg QUAD_VERTEX_COUNT s
      in s1\<lparr>indices := indices s1 @ map (\<lambda>k. k + index_offset s1) [0, 1, 2],
            index_offset := index_offset s1 + 3,
            vertices := vertices s1 @ map (triangle_vertex cfg (rotated_model cfg s pos r ax sz) col s1)
                                          [0..<TRIANGLE_VERTEX_COUNT],
            num_of_vertices_in_batch := num_of_vertices_in_batch s1 + 3,
            current_draw_command_vertex_size := current_draw_command_vertex_size s1 + 3\<rparr>)"
proof -
  have q: "\<And>m st st' i. current_material_id st = current_material_id st' \<Longrightarrow>
        triangle_vertex cfg m col st i = triangle_vertex cfg m col st' i"
    by (simp add: triangle_vertex_def)
  have e: "triangle_vertex cfg m col (CalculateTriangleIndices st) = triangle_vertex cfg m col st" for st m
    by (rule ext, rule q) (simp add: CalculateTriangleIndices_def)
  note w = write_loop_closed [of "triangle_vertex cfg m col" for m, OF q]
  show ?thesis
    by (simp add: DrawTriangle_rotated_def rotated_model_def Let_def w e TRIANGLE_VERTEX_COUNT_def)
       (simp add: CalculateTriangleIndices_def triangle_vertex_def)
qed

lemma square_indices_loop:
  "\<exists>ix io. fold (\<lambda>i st. CalculateSquareIndices st) xs s = s\<lparr>indices := ix, index_offset := io\<rparr>"
proof (induction xs arbitrary: s)
  case Nil
  have "fold (\<lambda>i st. CalculateSquareIndices st) [] s
          = s\<lparr>indices := indices s, index_offset := index_offset s\<rparr>" by simp
  then show ?case by (intro exI)
next
  case (Cons x xs)
  from Cons [of "CalculateSquareIndices s"] show ?case
    by (auto simp add: CalculateSquareIndices_def)
qed

lemma DrawCube_closed:
  "\<exists>ix io. DrawCube cfg m col tid tc s =
     (let s1 = ensure_capacity cfg CUBE_VERTEX_COUNT s
      in s1\<lparr>indices := ix,
            index_offset := io,
            vertices := vertices s1 @ map (cube_vertex cfg m col tid tc s1) [0..<CUBE_VERTEX_COUNT],
            num_of_vertices_in_batch := num_of_vertices_in_batch s1 + 24,
            current_draw_command_vertex_size := current_draw_command_vertex_size s1 + 36\<rparr>)"
proof -
  have q: "\<And>st st' i. current_material_id st = current_material_id st' \<Longrightarrow>
        cube_vertex cfg m col tid tc st i = cube_vertex cfg m col tid tc st' i"
    by (simp add: cube_vertex_def)
  note w = write_loop_closed [of "cube_vertex cfg m col tid tc", OF q]
  obtain ix io where f: "fold (\<lambda>i st. CalculateSquareIndices st) [0..<CUBE_FACES]
        (ensure_capacity cfg CUBE_VERTEX_COUNT s)
      = (ensure_capacity cfg CUBE_VERTEX_COUNT s)\<lparr>indices := ix, index_offset := io\<rparr>"
    using square_indices_loop by blast
  have e: "cube_vertex cfg m col tid tc (st\<lparr>indices := ix, index_offset := io\<rparr>) = cube_vertex cfg m col tid tc st" for st
    by (rule ext, rule q) simp
  have "DrawCube cfg m col tid tc s =
     (let s1 = ensure_capacity cfg CUBE_VERTEX_COUNT s
      in s1\<lparr>indices := ix,
            index_offset := io,
            vertices := vertices s1 @ map (cube_vertex cfg m col tid tc s1) [0..<CUBE_VERTEX_COUNT],
            num_of_vertices_in_batch := num_of_vertices_in_batch s1 + 24,
            current_draw_command_vertex_size := current_draw_command_vertex_size s1 + 36\<rparr>)"
    by (simp add: DrawCube_def Let_def f w e) (simp add: CUBE_VERTEX_COUNT_def)
  then show ?thesis by blast
qed

lemma RenderText_glyph_closed:
  "\<exists>corners coords. snd (RenderText_glyph cfg font c x y scale col s) =
     (let p = glyph_prepare cfg font s
      in (snd p)\<lparr>vertices := vertices (snd p) @ map (glyph_vertex corners coords col (fst p) (snd p))
                                                  [0..<QUAD_VERTEX_COUNT],
                 num_of_vertices_in_batch := num_of_vertices_in_batch (snd p) + 4,
                 current_draw_command_vertex_size := current_draw_command_vertex_size (snd p) + 6\<rparr>)"
proof -
  have q: "\<And>a b t st st' i. current_material_id st = current_material_id st' \<Longrightarrow>
        glyph_vertex a b col t st i = glyph_vertex a b col t st' i"
    by (simp add: glyph_vertex_def)
  note w = write_loop_closed [of "glyph_vertex a b col t" for a b t, OF q]
  show ?thesis
    apply (simp add: RenderText_glyph_def Let_def split_beta w)
    apply (simp add: QUAD_VERTEX_COUNT_def)
    apply (intro exI)
    apply (rule refl)
    done
qed

section \<open>The vertex capacity\<close>

lemma CalculateTextureIndex_cases:
  "snd (CalculateTextureIndex cfg ident s) = s
   \<or> (\<exists>tx n. snd (CalculateTextureIndex cfg ident s) = s\<lparr>textures := tx, texture_slot_index := n\<rparr>)
   \<or> (\<exists>tx n. snd (CalculateTextureIndex cfg ident s) = NewBatch cfg (s\<lparr>textures := tx, texture_slot_index := n\<rparr>))"
  by (auto simp add: CalculateTextureIndex_def Let_def)

lemma within_capacity_NewBatch: "within_capacity cfg (NewBatch cfg s)"
  by (simp add: within_capacity_def NewBatch_fields)

lemma within_capacity_CalculateTextureIndex:
  assumes "within_capacity cfg s"
  shows "within_capacity cfg (snd (CalculateTextureIndex cfg ident s))"
  using CalculateTextureIndex_cases [of cfg ident s] assms
  by (auto simp add: within_capacity_NewBatch) (simp_all add: within_capacity_def)

lemma room_CalculateTextureIndex:
  assumes "room_for cfg k s"
  shows "room_for cfg k (snd (CalculateTextureIndex cfg ident s))"
  using CalculateTextureIndex_cases [of cfg ident s] assms
  by (auto simp add: room_for_def NewBatch_fields)

lemma ensure_capacity_room:
  assumes "vertex_limit_ok cfg" "within_capacity cfg s" "k \<le> CUBE_VERTEX_COUNT"
  shows "room_for cfg k (ensure_capacity cfg k s) \<and> within_capacity cfg (ensure_capacity cfg k s)"
proof -
  have "unat (num_of_vertices_in_batch s) + k < 2 ^ 32"
    using assms by (simp add: vertex_limit_ok_def within_capacity_def)
  from ensure_capacity_nat [OF this] show ?thesis
    using assms
    by (auto simp add: room_for_def within_capacity_def vertex_limit_ok_def NewBatch_fields)
qed

lemma within_capacity_append:
  assumes "vertex_limit_ok cfg" "within_capacity cfg s" "room_for cfg k s" "length vs = k"
    "vertices s' = vertices s @ vs"
    "num_of_vertices_in_batch s' = num_of_vertices_in_batch s + word_of_nat k"
  shows "within_capacity cfg s'"
proof -
  have "unat (num_of_vertices_in_batch s) + k < 2 ^ 32"
    using assms by (simp add: vertex_limit_ok_def room_for_def)
  from unat_add_small [OF this] show ?thesis
    using assms by (simp add: within_capacity_def room_for_def)
qed

lemma within_capacity_DrawQuad:
  assumes "vertex_limit_ok cfg" "within_capacity cfg s"
  shows "within_capacity cfg (DrawQuad cfg m col tid tc s)"
proof -
  have r: "room_for cfg QUAD_VERTEX_COUNT (ensure_capacity cfg QUAD_VERTEX_COUNT s)"
    and w: "within_capacity cfg (ensure_capacity cfg QUAD_VERTEX_COUNT s)"
    using ensure_capacity_room [OF assms, of QUAD_VERTEX_COUNT]
    by (simp_all add: QUAD_VERTEX_COUNT_def CUBE_VERTEX_COUNT_def)
  show ?thesis
    by (rule within_capacity_append [OF assms(1) w r])
       (simp_all add: DrawQuad_closed Let_def QUAD_VERTEX_COUNT_def)
qed

lemma within_capacity_DrawTriangle:
  assumes "vertex_limit_ok cfg" "within_capacity cfg s"
  shows "within_capacity cfg (DrawTriangle cfg pos sz col s)"
    and "within_capacity cfg (DrawTriangle_rotated cfg pos r ax sz col s)"
proof -
  have "room_for cfg QUAD_VERTEX_COUNT (ensure_capacity cfg QUAD_VERTEX_COUNT s)"
    and w: "within_capacity cfg (ensure_capacity cfg QUAD_VERTEX_COUNT s)"
    using ensure_capacity_room [OF assms, of QUAD_VERTEX_COUNT]
    by (simp_all add: QUAD_VERTEX_COUNT_def CUBE_VERTEX_COUNT_def)
  then have r: "room_for cfg TRIANGLE_VERTEX_COUNT (ensure_capacity cfg QUAD_VERTEX_COUNT s)"
    by (simp add: room_for_def QUAD_VERTEX_COUNT_def TRIANGLE_VERTEX_COUNT_def)
  show "within_capacity cfg (DrawTriangle cfg pos sz col s)"
    by (rule within_capacity_append [OF assms(1) w r])
       (simp_all add: DrawTriangle_closed Let_def TRIANGLE_VERTEX_COUNT_def)
  show "within_capacity cfg (DrawTriangle_rotated cfg pos r ax sz col s)"
    by (rule within_capacity_append [OF assms(1) w r])
       (simp_all add: DrawTriangle_rotated_closed Let_def TRIANGLE_VERTEX_COUNT_def)
qed

lemma within_capacity_DrawCube:
  assumes "vertex_limit_ok cfg" "within_capacity cfg s"
  shows "within_capacity cfg (DrawCube cfg m col tid tc s)"
proof -
  have r: "room_for cfg CUBE_VERTEX_COUNT (ensure_capacity cfg CUBE_VERTEX_COUNT s)"
    and w: "within_capacity cfg (ensure_capacity cfg CUBE_VERTEX_COUNT s)"
    using ensure_capacity_room [OF assms, of CUBE_VERTEX_COUNT] by simp_all
  obtain ix io where c: "DrawCube cfg m col tid tc s =
     (let s1 = ensure_capacity cfg CUBE_VERTEX_COUNT s
      in s1\<lparr>indices := ix,
            index_offset := io,
            vertices := vertices s1 @ map (cube_vertex cfg m col tid tc s1) [0..<CUBE_VERTEX_COUNT],
            num_of_vertices_in_batch := num_of_vertices_in_batch s1 + 24,
            current_draw_command_vertex_size := current_draw_command_vertex_size s1 + 36\<rparr>)"
    using DrawCube_closed by blast
  show ?thesis
    by (rule within_capacity_append [OF assms(1) w r])
       (simp_all add: c Let_def CUBE_VERTEX_COUNT_def)
qed

lemma glyph_prepare_room:
  assumes "vertex_limit_ok cfg" "within_capacity cfg s"
  shows "room_for cfg QUAD_VERTEX_COUNT (snd (glyph_prepare cfg font s))
         \<and> within_capacity cfg (snd (glyph_prepare cfg font s))"
proof -
  let ?s1 = "ensure_capacity cfg QUAD_VERTEX_COUNT s"
  have r: "room_for cfg QUAD_VERTEX_COUNT ?s1" and w: "within_capacity cfg ?s1"
    using ensure_capacity_room [OF assms, of QUAD_VERTEX_COUNT]
    by (simp_all add: QUAD_VERTEX_COUNT_def CUBE_VERTEX_COUNT_def)
  have r2: "room_for cfg QUAD_VERTEX_COUNT (CalculateSquareIndices ?s1)"
    using r by (simp add: room_for_def CalculateSquareIndices_def)
  have w2: "within_capacity cfg (CalculateSquareIndices ?s1)"
    using w by (simp add: within_capacity_def CalculateSquareIndices_def)
  show ?thesis
    using room_CalculateTextureIndex [OF r2] within_capacity_CalculateTextureIndex [OF w2]
    by (simp add: glyph_prepare_def Let_def CalculateTextureIndex_ptr_def)
qed

lemma within_capacity_RenderText_glyph:
  assumes "vertex_limit_ok cfg" "within_capacity cfg s"
  shows "within_capacity cfg (snd (RenderText_glyph cfg font c x y scale col s))"
proof -
  obtain corners coords where c: "snd (RenderText_glyph cfg font c x y scale col s) =
     (let p = glyph_prepare cfg font s
      in (snd p)\<lparr>vertices := vertices (snd p) @ map (glyph_vertex corners coords col (fst p) (snd p))
                                                  [0..<QUAD_VERTEX_COUNT],
                 num_of_vertices_in_batch := num_of_vertices_in_batch (snd p) + 4,
                 current_draw_command_vertex_size := current_draw_command_vertex_size (snd p) + 6\<rparr>)"
    using RenderText_glyph_closed by blast
  from glyph_prepare_room [OF assms, of font]
  have r: "room_for cfg QUAD_VERTEX_COUNT (snd (glyph_prepare cfg font s))"
    and w: "within_capacity cfg (snd (glyph_prepare cfg font s))" by simp_all
  show ?thesis
    by (rule within_capacity_append [OF assms(1) w r])
       (simp_all add: c Let_def QUAD_VERTEX_COUNT_def)
qed

lemma within_capacity_RenderText_loop:
  assumes "vertex_limit_ok cfg" "within_capacity cfg s"
  shows "within_capacity cfg (RenderText_loop cfg font str x y scale col s)"
  using assms(2)
proof (induction str arbitrary: x s)
  case Nil
  then show ?case by simp
next
  case (Cons c cs)
  from within_capacity_RenderText_glyph [OF assms(1) Cons.prems, of font c x y scale col]
  show ?case
    by (auto simp add: split_beta intro: Cons.IH)
qed

lemma within_capacity_exec:
  assumes "vertex_limit_ok cfg" "within_capacity cfg s"
  shows "within_capacity cfg (exec cfg s c)"
proof -
  note q = within_capacity_DrawQuad [OF assms(1)]
  note cu = within_capacity_DrawCube [OF assms(1)]
  note t = within_capacity_CalculateTextureIndex [OF assms(2)]
  show ?thesis
  proof (cases c)
    case (CBeginScene cam fl)
    then show ?thesis by (simp add: BeginScene_def StartBatch_def within_capacity_def)
  next
    case CEndScene
    then show ?thesis using assms(2)
      by (simp add: EndScene_def Render_def GoToNextDrawCommand_def MakeCommand_def within_capacity_def Let_def)
  next
    case (CRenderText font str pos scale col)
    then show ?thesis
      by (simp add: RenderText_def within_capacity_RenderText_loop [OF assms])
  next
    case (CDrawTriangle pos sz col)
    then show ?thesis by (simp add: within_capacity_DrawTriangle [OF assms])
  next
    case (CDrawTriangle_rotated pos r ax sz col)
    then show ?thesis by (simp add: within_capacity_DrawTriangle [OF assms])
  qed (use assms(2) in \<open>simp_all add: q cu t SetShader_def SetShaderToDefualt_def SetMaterialId_def
        within_capacity_def [of cfg "s\<lparr>current_shader := _\<rparr>"]
        within_capacity_def [of cfg "s\<lparr>current_material_id := _\<rparr>"]
        within_capacity_def [of cfg s]
        DrawQuad_color_def DrawQuad_texture_def DrawQuad_handle_def DrawQuad_coords_def
        DrawQuad_texture_coords_def DrawRotatedQuad_color_def DrawRotatedQuad_texture_def
        DrawRotatedQuad_coords_def DrawRotatedQuad_coords_texture_def DrawLine_def
        DrawCube_color_def DrawCube_texture_def CalculateTextureIndex_ptr_def Let_def split_beta\<close>)
qed

lemma within_capacity_run:
  assumes "vertex_limit_ok cfg" "within_capacity cfg s"
  shows "within_capacity cfg (run cfg cs s)"
  using assms(2) unfolding run_def
  by (induction cs arbitrary: s) (simp_all add: within_capacity_exec [OF assms(1)])

text \<open>
  C4. With a vertex limit that leaves room for a cube and in a state whose staged
  vertices are within the limit: at the point where an emitter writes its first vertex
  (after the capacity check and the index generation; for a text glyph also after the
  slot assignment), \<open>vertices_in_batch\<close> plus the primitive's vertex count is at most
  \<open>MAX_VERTEX_COUNT\<close>, for the quad (and the line, which is a quad), the triangle, the
  cube and the glyph. The capacity check flushes and restarts exactly when the count would
  not fit. Every call keeps the staged vertices within the limit, so this holds at every
  emitter call of every sequence of calls from the initial state. The flush-and-restart of
  the capacity check is a real one: when the count fits the state is left as it is, and
  otherwise the staged vertices and indices are submitted in one more submission and the
  batch restarts empty; accordingly a quad or a cube adds one submission exactly when it
  would not fit.
\<close>

theorem capacity_invariant:
  assumes "vertex_limit_ok cfg" and "within_capacity cfg s"
  shows "room_for cfg QUAD_VERTEX_COUNT (CalculateSquareIndices (ensure_capacity cfg QUAD_VERTEX_COUNT s))
    \<and> room_for cfg TRIANGLE_VERTEX_COUNT (CalculateTriangleIndices (ensure_capacity cfg QUAD_VERTEX_COUNT s))
    \<and> room_for cfg CUBE_VERTEX_COUNT
         (fold (\<lambda>i st. CalculateSquareIndices st) [0..<CUBE_FACES] (ensure_capacity cfg CUBE_VERTEX_COUNT s))
    \<and> room_for cfg QUAD_VERTEX_COUNT (snd (glyph_prepare cfg font s))
    \<and> ensure_capacity cfg QUAD_VERTEX_COUNT s = (if room_for cfg QUAD_VERTEX_COUNT s then s else NewBatch cfg s)
    \<and> ensure_capacity cfg CUBE_VERTEX_COUNT s = (if room_for cfg CUBE_VERTEX_COUNT s then s else NewBatch cfg s)
    \<and> within_capacity cfg (snd (CalculateTextureIndex cfg ident s))
    \<and> within_capacity cfg (exec cfg s c)
    \<and> within_capacity cfg (run cfg cs (Init_state cfg))
    \<and> (if room_for cfg QUAD_VERTEX_COUNT s then ensure_capacity cfg QUAD_VERTEX_COUNT s = s
        else flushed_and_restarted s (ensure_capacity cfg QUAD_VERTEX_COUNT s))
    \<and> (if room_for cfg CUBE_VERTEX_COUNT s then ensure_capacity cfg CUBE_VERTEX_COUNT s = s
        else flushed_and_restarted s (ensure_capacity cfg CUBE_VERTEX_COUNT s))
    \<and> length (submissions (DrawQuad cfg m col tid tc s))
          = length (submissions s) + (if room_for cfg QUAD_VERTEX_COUNT s then 0 else 1)
    \<and> length (submissions (DrawCube cfg m col tid tc s))
          = length (submissions s) + (if room_for cfg CUBE_VERTEX_COUNT s then 0 else 1)"
proof -
  have q: "room_for cfg QUAD_VERTEX_COUNT (ensure_capacity cfg QUAD_VERTEX_COUNT s)"
    using ensure_capacity_room [OF assms, of QUAD_VERTEX_COUNT]
    by (simp add: QUAD_VERTEX_COUNT_def CUBE_VERTEX_COUNT_def)
  have c: "room_for cfg CUBE_VERTEX_COUNT (ensure_capacity cfg CUBE_VERTEX_COUNT s)"
    using ensure_capacity_room [OF assms, of CUBE_VERTEX_COUNT] by simp
  have 1: "room_for cfg QUAD_VERTEX_COUNT (CalculateSquareIndices (ensure_capacity cfg QUAD_VERTEX_COUNT s))"
    using q by (simp add: room_for_def CalculateSquareIndices_def)
  have 2: "room_for cfg TRIANGLE_VERTEX_COUNT (CalculateTriangleIndices (ensure_capacity cfg QUAD_VERTEX_COUNT s))"
    using q by (simp add: room_for_def CalculateTriangleIndices_def QUAD_VERTEX_COUNT_def TRIANGLE_VERTEX_COUNT_def)
  obtain ix io where "fold (\<lambda>i st. CalculateSquareIndices st) [0..<CUBE_FACES] (ensure_capacity cfg CUBE_VERTEX_COUNT s)
      = (ensure_capacity cfg CUBE_VERTEX_COUNT s)\<lparr>indices := ix, index_offset := io\<rparr>"
    using square_indices_loop by blast
  then have 3: "room_for cfg CUBE_VERTEX_COUNT
         (fold (\<lambda>i st. CalculateSquareIndices st) [0..<CUBE_FACES] (ensure_capacity cfg CUBE_VERTEX_COUNT s))"
    using c by (simp add: room_for_def)
  have 4: "room_for cfg QUAD_VERTEX_COUNT (snd (glyph_prepare cfg font s))"
    using glyph_prepare_room [OF assms] by simp
  have n: "unat (num_of_vertices_in_batch s) + k < 2 ^ 32" if "k \<le> CUBE_VERTEX_COUNT" for k
    using assms that by (simp add: vertex_limit_ok_def within_capacity_def)
  have 5: "ensure_capacity cfg QUAD_VERTEX_COUNT s = (if room_for cfg QUAD_VERTEX_COUNT s then s else NewBatch cfg s)"
    using ensure_capacity_nat [OF n, of QUAD_VERTEX_COUNT cfg]
    by (auto simp add: room_for_def QUAD_VERTEX_COUNT_def CUBE_VERTEX_COUNT_def)
  have 6: "ensure_capacity cfg CUBE_VERTEX_COUNT s = (if room_for cfg CUBE_VERTEX_COUNT s then s else NewBatch cfg s)"
    using ensure_capacity_nat [OF n, of CUBE_VERTEX_COUNT cfg]
    by (auto simp add: room_for_def)
  have 7: "within_capacity cfg (snd (CalculateTextureIndex cfg ident s))"
    by (rule within_capacity_CalculateTextureIndex [OF assms(2)])
  have 8: "within_capacity cfg (exec cfg s c)"
    by (rule within_capacity_exec [OF assms])
  have "within_capacity cfg (Init_state cfg)"
    by (simp add: within_capacity_def Init_state_def)
  then have 9: "within_capacity cfg (run cfg cs (Init_state cfg))"
    by (rule within_capacity_run [OF assms(1)])
  have f: "flushed_and_restarted s (NewBatch cfg s)"
    by (simp add: flushed_and_restarted_def NewBatch_fields Render_def Let_def)
  have 10: "if room_for cfg QUAD_VERTEX_COUNT s then ensure_capacity cfg QUAD_VERTEX_COUNT s = s
        else flushed_and_restarted s (ensure_capacity cfg QUAD_VERTEX_COUNT s)"
    using f by (simp add: 5)
  have 11: "if room_for cfg CUBE_VERTEX_COUNT s then ensure_capacity cfg CUBE_VERTEX_COUNT s = s
        else flushed_and_restarted s (ensure_capacity cfg CUBE_VERTEX_COUNT s)"
    using f by (simp add: 6)
  have 12: "length (submissions (DrawQuad cfg m col tid tc s))
          = length (submissions s) + (if room_for cfg QUAD_VERTEX_COUNT s then 0 else 1)"
    by (simp add: DrawQuad_closed Let_def 5 NewBatch_fields Render_def)
  obtain ix io where d: "DrawCube cfg m col tid tc s =
     (let s1 = ensure_capacity cfg CUBE_VERTEX_COUNT s
      in s1\<lparr>indices := ix,
            index_offset := io,
            vertices := vertices s1 @ map (cube_vertex cfg m col tid tc s1) [0..<CUBE_VERTEX_COUNT],
            num_of_vertices_in_batch := num_of_vertices_in_batch s1 + 24,
            current_draw_command_vertex_size := current_draw_command_vertex_size s1 + 36\<rparr>)"
    using DrawCube_closed by blast
  have 13: "length (submissions (DrawCube cfg m col tid tc s))
          = length (submissions s) + (if room_for cfg CUBE_VERTEX_COUNT s then 0 else 1)"
    by (simp add: d Let_def 6 NewBatch_fields Render_def)
  from 1 2 3 4 5 6 7 8 9 10 11 12 13 show ?thesis by blast
qed

theorem capacity_invariant_witness:
  "vertex_limit_ok demo_config \<and> within_capacity demo_config three_slots_left
   \<and> room_for demo_config QUAD_VERTEX_COUNT
       (CalculateSquareIndices (ensure_capacity demo_config QUAD_VERTEX_COUNT three_slots_left))
   \<and> ensure_capacity demo_config QUAD_VERTEX_COUNT three_slots_left = NewBatch demo_config three_slots_left
   \<and> within_capacity demo_config
       (exec demo_config three_slots_left (CDrawCube_color (Vec3 0 0 0) (Vec3 1 1 1) white))
   \<and> flushed_and_restarted three_slots_left
       (ensure_capacity demo_config QUAD_VERTEX_COUNT three_slots_left)
   \<and> length (submissions (DrawQuad demo_config mat4_identity white (- 1) (TEX_COORDS demo_config)
                           three_slots_left)) = 1"
proof -
  have a: "vertex_limit_ok demo_config"
    by (simp add: vertex_limit_ok_def demo_config_def CUBE_VERTEX_COUNT_def)
  have b: "within_capacity demo_config three_slots_left"
    by (simp add: within_capacity_def three_slots_left_def demo_config_def Init_state_def)
  have r: "\<not> room_for demo_config QUAD_VERTEX_COUNT three_slots_left"
    by (simp add: room_for_def three_slots_left_def demo_config_def Init_state_def QUAD_VERTEX_COUNT_def)
  note th = capacity_invariant [OF a b]
  have 1: "room_for demo_config QUAD_VERTEX_COUNT
       (CalculateSquareIndices (ensure_capacity demo_config QUAD_VERTEX_COUNT three_slots_left))"
    by (rule th [THEN conjunct1])
  have 5: "ensure_capacity demo_config QUAD_VERTEX_COUNT three_slots_left
       = (if room_for demo_config QUAD_VERTEX_COUNT three_slots_left then three_slots_left
          else NewBatch demo_config three_slots_left)"
    by (rule th [THEN conjunct2, THEN conjunct2, THEN conjunct2, THEN conjunct2, THEN conjunct1])
  have 8: "within_capacity demo_config
       (exec demo_config three_slots_left (CDrawCube_color (Vec3 0 0 0) (Vec3 1 1 1) white))"
    by (rule th [THEN conjunct2, THEN conjunct2, THEN conjunct2, THEN conjunct2, THEN conjunct2,
                 THEN conjunct2, THEN conjunct2, THEN conjunct1])
  from 5 r have e: "ensure_capacity demo_config QUAD_VERTEX_COUNT three_slots_left
       = NewBatch demo_config three_slots_left"
    by simp
  have 10: "if room_for demo_config QUAD_VERTEX_COUNT three_slots_left
       then ensure_capacity demo_config QUAD_VERTEX_COUNT three_slots_left = three_slots_left
       else flushed_and_restarted three_slots_left
              (ensure_capacity demo_config QUAD_VERTEX_COUNT three_slots_left)"
    by (rule th [THEN conjunct2, THEN conjunct2, THEN conjunct2, THEN conjunct2, THEN conjunct2,
                 THEN conjunct2, THEN conjunct2, THEN conjunct2, THEN conjunct2, THEN conjunct1])
  from 10 r have g: "flushed_and_restarted three_slots_left
       (ensure_capacity demo_config QUAD_VERTEX_COUNT three_slots_left)"
    by simp
  have 12: "length (submissions (DrawQuad demo_config mat4_identity white (- 1) (TEX_COORDS demo_config)
                           three_slots_left))
       = length (submissions three_slots_left)
         + (if room_for demo_config QUAD_VERTEX_COUNT three_slots_left then 0 else 1)"
    by (rule th [THEN conjunct2, THEN conjunct2, THEN conjunct2, THEN conjunct2, THEN conjunct2,
                 THEN conjunct2, THEN conjunct2, THEN conjunct2, THEN conjunct2, THEN conjunct2,
                 THEN conjunct2, THEN conjunct1])
  have z: "length (submissions three_slots_left) = 0"
    by (simp add: three_slots_left_def Init_state_def)
  from 12 r z have h: "length (submissions (DrawQuad demo_config mat4_identity white (- 1)
                           (TEX_COORDS demo_config) three_slots_left)) = 1"
    by simp
  from a b 1 e 8 g h show ?thesis by blast
qed

text \<open>
  C9. Both triangle emitters flush and restart exactly when fewer than four vertex slots
  remain, the quad's requirement, although a triangle appends three vertices: the number
  of submissions grows by one if and only if four vertices would not fit, and the three
  vertices are then the first of a new batch. In particular a triangle flushes when
  exactly three slots remain.
\<close>

theorem triangle_checks_quad_capacity:
  assumes "vertex_limit_ok cfg" and "within_capacity cfg s"
  shows "length (submissions (DrawTriangle cfg pos sz col s))
           = length (submissions s) + (if room_for cfg QUAD_VERTEX_COUNT s then 0 else 1)
    \<and> length (vertices (DrawTriangle cfg pos sz col s))
           = (if room_for cfg QUAD_VERTEX_COUNT s then length (vertices s) else 0) + TRIANGLE_VERTEX_COUNT
    \<and> length (submissions (DrawTriangle_rotated cfg pos r ax sz col s))
           = length (submissions s) + (if room_for cfg QUAD_VERTEX_COUNT s then 0 else 1)
    \<and> length (vertices (DrawTriangle_rotated cfg pos r ax sz col s))
           = (if room_for cfg QUAD_VERTEX_COUNT s then length (vertices s) else 0) + TRIANGLE_VERTEX_COUNT"
proof -
  have "unat (num_of_vertices_in_batch s) + QUAD_VERTEX_COUNT < 2 ^ 32"
    using assms by (simp add: vertex_limit_ok_def within_capacity_def QUAD_VERTEX_COUNT_def CUBE_VERTEX_COUNT_def)
  from ensure_capacity_nat [OF this, of cfg]
  have e: "ensure_capacity cfg QUAD_VERTEX_COUNT s = (if room_for cfg QUAD_VERTEX_COUNT s then s else NewBatch cfg s)"
    by (auto simp add: room_for_def)
  show ?thesis
    by (simp add: DrawTriangle_closed DrawTriangle_rotated_closed Let_def e NewBatch_fields
        Render_def TRIANGLE_VERTEX_COUNT_def)
qed

theorem triangle_checks_quad_capacity_witness:
  "vertex_limit_ok demo_config \<and> within_capacity demo_config three_slots_left
   \<and> room_for demo_config TRIANGLE_VERTEX_COUNT three_slots_left
   \<and> length (submissions three_slots_left) = 0
   \<and> length (submissions (DrawTriangle demo_config (Vec3 0 0 0) (Vec2 1 1) white three_slots_left)) = 1
   \<and> length (vertices (DrawTriangle demo_config (Vec3 0 0 0) (Vec2 1 1) white three_slots_left)) = 3
   \<and> length (submissions (DrawTriangle_rotated demo_config (Vec3 0 0 0) 90 (Vec3 0 0 1) (Vec2 1 1) white
                           three_slots_left)) = 1"
proof -
  have a: "vertex_limit_ok demo_config"
    by (simp add: vertex_limit_ok_def demo_config_def CUBE_VERTEX_COUNT_def)
  have b: "within_capacity demo_config three_slots_left"
    by (simp add: within_capacity_def three_slots_left_def demo_config_def Init_state_def)
  have r: "\<not> room_for demo_config QUAD_VERTEX_COUNT three_slots_left"
    by (simp add: room_for_def three_slots_left_def demo_config_def Init_state_def QUAD_VERTEX_COUNT_def)
  have r3: "room_for demo_config TRIANGLE_VERTEX_COUNT three_slots_left"
    by (simp add: room_for_def three_slots_left_def demo_config_def Init_state_def TRIANGLE_VERTEX_COUNT_def)
  have z: "length (submissions three_slots_left) = 0"
    by (simp add: three_slots_left_def Init_state_def)
  from triangle_checks_quad_capacity [OF a b, of "Vec3 0 0 0" "Vec2 1 1" white 90 "Vec3 0 0 1"] a b r r3 z
  show ?thesis by (simp add: TRIANGLE_VERTEX_COUNT_def)
qed

section \<open>The material stamp\<close>

lemma unat_minus_one_32: "unat (- 1 :: 32 word) = 4294967295"
  by (simp add: unsigned_minus_1_eq_mask mask_eq_exp_minus_1)

lemma float_of_minus_one: "float_of_uint32 (- 1) = 4294967296"
  by (simp add: float_of_uint32_def round_to_float_def float_exponent_def Let_def unat_minus_one_32)

lemma list_all_drop: "list_all P xs \<Longrightarrow> list_all P (drop k xs)"
  by (auto simp add: list_all_iff dest: in_set_dropD)

lemma stamped_unset_NewBatch:
  assumes "stamped_unset n0 s"
  shows "stamped_unset n0 (NewBatch cfg s)"
  using assms
  by (simp add: stamped_unset_def NewBatch_fields Render_def Let_def list_all_drop)

lemma stamped_unset_ensure_capacity:
  assumes "stamped_unset n0 s"
  shows "stamped_unset n0 (ensure_capacity cfg k s)"
  using assms by (simp add: ensure_capacity_def stamped_unset_NewBatch)

lemma stamped_unset_CalculateTextureIndex:
  assumes "stamped_unset n0 s"
  shows "stamped_unset n0 (snd (CalculateTextureIndex cfg ident s))"
proof -
  have u: "stamped_unset n0 (s\<lparr>textures := tx, texture_slot_index := n\<rparr>)" for tx n
    using assms by (simp add: stamped_unset_def)
  show ?thesis
    using CalculateTextureIndex_cases [of cfg ident s] assms
    by (auto simp add: u stamped_unset_NewBatch)
qed

lemma stamped_unset_append:
  assumes "stamped_unset n0 s" "list_all unset_stamp vs"
    "vertices s' = vertices s @ vs" "current_material_id s' = current_material_id s"
    "submissions s' = submissions s"
  shows "stamped_unset n0 s'"
  using assms by (simp add: stamped_unset_def)

lemma stamped_unset_DrawQuad:
  assumes "stamped_unset n0 s"
  shows "stamped_unset n0 (DrawQuad cfg m col tid tc s)"
proof -
  note e = stamped_unset_ensure_capacity [OF assms, of cfg QUAD_VERTEX_COUNT]
  then have c: "current_material_id (ensure_capacity cfg QUAD_VERTEX_COUNT s) = - 1"
    by (simp add: stamped_unset_def)
  show ?thesis
    by (rule stamped_unset_append [OF e])
       (simp_all add: DrawQuad_closed Let_def list_all_iff quad_vertex_def unset_stamp_def c float_of_minus_one)
qed

lemma stamped_unset_DrawTriangle:
  assumes "stamped_unset n0 s"
  shows "stamped_unset n0 (DrawTriangle cfg pos sz col s)"
    and "stamped_unset n0 (DrawTriangle_rotated cfg pos r ax sz col s)"
proof -
  note e = stamped_unset_ensure_capacity [OF assms, of cfg QUAD_VERTEX_COUNT]
  then have c: "current_material_id (ensure_capacity cfg QUAD_VERTEX_COUNT s) = - 1"
    by (simp add: stamped_unset_def)
  show "stamped_unset n0 (DrawTriangle cfg pos sz col s)"
    by (rule stamped_unset_append [OF e])
       (simp_all add: DrawTriangle_closed Let_def list_all_iff triangle_vertex_def unset_stamp_def c float_of_minus_one)
  show "stamped_unset n0 (DrawTriangle_rotated cfg pos r ax sz col s)"
    by (rule stamped_unset_append [OF e])
       (simp_all add: DrawTriangle_rotated_closed Let_def list_all_iff triangle_vertex_def unset_stamp_def c float_of_minus_one)
qed

lemma stamped_unset_DrawCube:
  assumes "stamped_unset n0 s"
  shows "stamped_unset n0 (DrawCube cfg m col tid tc s)"
proof -
  note e = stamped_unset_ensure_capacity [OF assms, of cfg CUBE_VERTEX_COUNT]
  then have c: "current_material_id (ensure_capacity cfg CUBE_VERTEX_COUNT s) = - 1"
    by (simp add: stamped_unset_def)
  obtain ix io where d: "DrawCube cfg m col tid tc s =
     (let s1 = ensure_capacity cfg CUBE_VERTEX_COUNT s
      in s1\<lparr>indices := ix,
            index_offset := io,
            vertices := vertices s1 @ map (cube_vertex cfg m col tid tc s1) [0..<CUBE_VERTEX_COUNT],
            num_of_vertices_in_batch := num_of_vertices_in_batch s1 + 24,
            current_draw_command_vertex_size := current_draw_command_vertex_size s1 + 36\<rparr>)"
    using DrawCube_closed by blast
  show ?thesis
    by (rule stamped_unset_append [OF e])
       (simp_all add: d Let_def list_all_iff cube_vertex_def unset_stamp_def c float_of_minus_one)
qed

lemma stamped_unset_RenderText_glyph:
  assumes "stamped_unset n0 s"
  shows "stamped_unset n0 (snd (RenderText_glyph cfg font c x y scale col s))"
proof -
  obtain corners coords where d: "snd (RenderText_glyph cfg font c x y scale col s) =
     (let p = glyph_prepare cfg font s
      in (snd p)\<lparr>vertices := vertices (snd p) @ map (glyph_vertex corners coords col (fst p) (snd p))
                                                  [0..<QUAD_VERTEX_COUNT],
                 num_of_vertices_in_batch := num_of_vertices_in_batch (snd p) + 4,
                 current_draw_command_vertex_size := current_draw_command_vertex_size (snd p) + 6\<rparr>)"
    using RenderText_glyph_closed by blast
  have "stamped_unset n0 (CalculateSquareIndices (ensure_capacity cfg QUAD_VERTEX_COUNT s))"
    using stamped_unset_ensure_capacity [OF assms, of cfg QUAD_VERTEX_COUNT]
    by (simp add: stamped_unset_def CalculateSquareIndices_def)
  then have e: "stamped_unset n0 (snd (glyph_prepare cfg font s))"
    by (simp add: glyph_prepare_def Let_def CalculateTextureIndex_ptr_def stamped_unset_CalculateTextureIndex)
  then have c: "current_material_id (snd (glyph_prepare cfg font s)) = - 1"
    by (simp add: stamped_unset_def)
  show ?thesis
    by (rule stamped_unset_append [OF e])
       (simp_all add: d Let_def list_all_iff glyph_vertex_def unset_stamp_def c float_of_minus_one)
qed

lemma stamped_unset_RenderText_loop:
  assumes "stamped_unset n0 s"
  shows "stamped_unset n0 (RenderText_loop cfg font str x y scale col s)"
  using assms
proof (induction str arbitrary: x s)
  case Nil
  then show ?case by simp
next
  case (Cons c cs)
  from stamped_unset_RenderText_glyph [OF Cons.prems, of cfg font c x y scale col]
  show ?case
    by (auto simp add: split_beta intro: Cons.IH)
qed

lemma stamped_unset_exec:
  assumes "stamped_unset n0 s" "\<not> sets_material c"
  shows "stamped_unset n0 (exec cfg s c)"
proof -
  note q = stamped_unset_DrawQuad
  note cu = stamped_unset_DrawCube
  note t = stamped_unset_CalculateTextureIndex [OF assms(1)]
  show ?thesis
  proof (cases c)
    case (CBeginScene cam fl)
    then show ?thesis using assms(1)
      by (simp add: BeginScene_def StartBatch_def stamped_unset_def)
  next
    case CEndScene
    then show ?thesis using assms(1)
      by (simp add: EndScene_def Render_def GoToNextDrawCommand_def MakeCommand_def stamped_unset_def
          Let_def list_all_drop)
  next
    case (CSetMaterialId m)
    then show ?thesis using assms(2) by (simp add: sets_material_def)
  next
    case (CSetShader sh)
    then show ?thesis using assms(1) by (simp add: SetShader_def stamped_unset_def)
  next
    case CSetShaderToDefualt
    then show ?thesis using assms(1) by (simp add: SetShaderToDefualt_def stamped_unset_def)
  next
    case (CRenderText font str pos scale col)
    then show ?thesis
      by (simp add: RenderText_def stamped_unset_RenderText_loop [OF assms(1)])
  next
    case (CDrawTriangle pos sz col)
    then show ?thesis by (simp add: stamped_unset_DrawTriangle [OF assms(1)])
  next
    case (CDrawTriangle_rotated pos r ax sz col)
    then show ?thesis by (simp add: stamped_unset_DrawTriangle [OF assms(1)])
  qed (use assms(1) in \<open>simp_all add: q cu t
        DrawQuad_color_def DrawQuad_texture_def DrawQuad_handle_def DrawQuad_coords_def
        DrawQuad_texture_coords_def DrawRotatedQuad_color_def DrawRotatedQuad_texture_def
        DrawRotatedQuad_coords_def DrawRotatedQuad_coords_texture_def DrawLine_def
        DrawCube_color_def DrawCube_texture_def CalculateTextureIndex_ptr_def Let_def split_beta\<close>)
qed

lemma stamped_unset_run:
  assumes "stamped_unset n0 s" "\<not> list_ex sets_material cs"
  shows "stamped_unset n0 (run cfg cs s)"
  using assms unfolding run_def
  by (induction cs arbitrary: s) (simp_all add: stamped_unset_exec)

lemma stamped_unset_BeginScene: "stamped_unset (length (submissions s)) (BeginScene cfg cam fl s)"
  by (simp add: stamped_unset_def BeginScene_def StartBatch_def)


text \<open>
  What every emitter stamps. The active material id is an unsigned 32-bit field, so the
  unset value written as \<open>-1\<close> is \<open>0xFFFFFFFF\<close>, and its conversion to float is
  4294967296. In a scene, from \<open>BeginScene\<close> on and as long as no call sets a material,
  every vertex staged and every vertex submitted carries that value as its material id,
  whichever emitters are called.
\<close>

lemma unset_material_stamp:
  assumes "\<not> list_ex sets_material cs"
  shows "list_all unset_stamp (vertices (run cfg cs (BeginScene cfg cam fl s)))
    \<and> list_all (\<lambda>sub. list_all unset_stamp (sub_vertices sub))
         (drop (length (submissions s)) (submissions (run cfg cs (BeginScene cfg cam fl s))))"
  using stamped_unset_run [OF stamped_unset_BeginScene assms]
  by (simp add: stamped_unset_def)

lemma unset_material_stamp_example:
  "\<not> list_ex sets_material
        [CDrawQuad_color (Vec3 0 0 0) (Vec2 1 1) white, CDrawTriangle (Vec3 0 0 0) (Vec2 1 1) white, CEndScene]
   \<and> unset_stamp \<lparr>position = Vec3 0 0 0, color = white, texture_coordinates = Vec2 0 0,
                    texture_id = - 1, material_id = float_of_uint32 (- 1)\<rparr>
   \<and> list_all unset_stamp
        (vertices (run demo_config
           [CDrawQuad_color (Vec3 0 0 0) (Vec2 1 1) white, CDrawTriangle (Vec3 0 0 0) (Vec2 1 1) white, CEndScene]
           (BeginScene demo_config demo_camera 0 (Init_state demo_config))))"
proof -
  have h: "\<not> list_ex sets_material
        [CDrawQuad_color (Vec3 0 0 0) (Vec2 1 1) white, CDrawTriangle (Vec3 0 0 0) (Vec2 1 1) white, CEndScene]"
    by (simp add: sets_material_def)
  from unset_material_stamp [OF h, of demo_config demo_camera 0 "Init_state demo_config"] h
  show ?thesis by (simp add: unset_stamp_def float_of_minus_one)
qed

section \<open>The texture slot allocator\<close>

lemma float_of_uint32_nonneg: "0 \<le> float_of_uint32 u"
  by (simp add: float_of_uint32_def)

lemma float_of_uint32_not_unset: "float_of_uint32 u \<noteq> - 1"
  using float_of_uint32_nonneg [of u] by simp

lemma scan_slots_Suc:
  "scan_slots tex (Suc n) ident =
     (if tex ! n = ident then float_of_uint32 (word_of_nat n) else scan_slots tex n ident)"
  by (simp add: scan_slots_def)

lemma scan_slots_miss:
  "(\<forall>j<n. tex ! j \<noteq> ident) \<Longrightarrow> scan_slots tex n ident = - 1"
proof (induction n)
  case 0
  show ?case by (simp add: scan_slots_def)
next
  case (Suc n)
  then show ?case by (simp add: scan_slots_Suc)
qed

lemma scan_slots_hit:
  "\<exists>j<n. tex ! j = ident \<Longrightarrow>
   \<exists>j<n. tex ! j = ident \<and> scan_slots tex n ident = float_of_uint32 (word_of_nat j)"
proof (induction n)
  case 0
  then show ?case by simp
next
  case (Suc n)
  show ?case
  proof (cases "tex ! n = ident")
    case True
    then show ?thesis by (auto simp add: scan_slots_Suc)
  next
    case False
    with Suc.prems have "\<exists>j<n. tex ! j = ident"
      by (metis less_Suc_eq)
    from Suc.IH [OF this] False show ?thesis
      by (auto simp add: scan_slots_Suc less_Suc_eq)
  qed
qed

lemma CalculateTextureIndex_hit:
  assumes "\<exists>j<unat (texture_slot_index s). textures s ! j = ident"
  shows "\<exists>j. slot_of s ident j
           \<and> CalculateTextureIndex cfg ident s = (float_of_uint32 (word_of_nat j), s)"
proof -
  from scan_slots_hit [OF assms] obtain j where
    j: "j < unat (texture_slot_index s)" "textures s ! j = ident"
       "scan_slots (textures s) (unat (texture_slot_index s)) ident = float_of_uint32 (word_of_nat j)"
    by blast
  then show ?thesis
    by (auto simp add: CalculateTextureIndex_def Let_def float_of_uint32_not_unset slot_of_def)
qed

lemma unat_succ:
  fixes n m :: "32 word"
  assumes "unat n + 1 < unat m"
  shows "unat (n + 1) = unat n + 1"
proof -
  have "unat m < 2 ^ 32"
    using unsigned_less [of m] by simp
  with assms have "unat n + 1 < 2 ^ 32" by simp
  from unat_add_small [OF this] show ?thesis by simp
qed

lemma CalculateTextureIndex_miss:
  assumes "\<forall>j<unat (texture_slot_index s). textures s ! j \<noteq> ident"
    and "unat (texture_slot_index s) + 1 < unat (MAX_TEXTURE_SLOTS cfg)"
  shows "CalculateTextureIndex cfg ident s =
           (float_of_uint32 (texture_slot_index s),
            s\<lparr>textures := (textures s)[unat (texture_slot_index s) := ident],
              texture_slot_index := texture_slot_index s + 1\<rparr>)"
proof -
  have "unat (texture_slot_index s + 1) = unat (texture_slot_index s) + 1"
    by (rule unat_succ [OF assms(2)])
  then have "texture_slot_index s + 1 \<noteq> MAX_TEXTURE_SLOTS cfg"
    using assms(2) by auto
  then show ?thesis
    by (simp add: CalculateTextureIndex_def Let_def scan_slots_miss [OF assms(1)])
qed

lemma alloc_repeat_hit:
  assumes "slot_of s ident j"
  shows "\<exists>i. slot_of s ident i
           \<and> alloc_repeat cfg ident K s = (replicate K (float_of_uint32 (word_of_nat i)), s)"
proof -
  from assms have "\<exists>j<unat (texture_slot_index s). textures s ! j = ident"
    by (auto simp add: slot_of_def)
  from CalculateTextureIndex_hit [OF this, of cfg] obtain i where
    i: "slot_of s ident i" "CalculateTextureIndex cfg ident s = (float_of_uint32 (word_of_nat i), s)"
    by blast
  have "alloc_repeat cfg ident K s = (replicate K (float_of_uint32 (word_of_nat i)), s)"
    by (induction K) (simp_all add: i)
  with i show ?thesis by blast
qed


lemma alloc_repeat_dedup:
  assumes "0 < K"
    and "unat (texture_slot_index s) < length (textures s)"
    and "(\<exists>i. slot_of s ident i) \<or> unat (texture_slot_index s) + 1 < unat (MAX_TEXTURE_SLOTS cfg)"
  shows "\<exists>j. slot_of (snd (alloc_repeat cfg ident K s)) ident j
           \<and> fst (alloc_repeat cfg ident K s) = replicate K (float_of_uint32 (word_of_nat j))
           \<and> texture_slot_index (snd (alloc_repeat cfg ident K s))
               = (if \<exists>i. slot_of s ident i then texture_slot_index s else texture_slot_index s + 1)
           \<and> submissions (snd (alloc_repeat cfg ident K s)) = submissions s"
proof (cases "\<exists>i. slot_of s ident i")
  case True
  then obtain i where "slot_of s ident i" by blast
  from alloc_repeat_hit [OF this, of cfg K] True show ?thesis
    by auto
next
  case False
  then have miss: "\<forall>j<unat (texture_slot_index s). textures s ! j \<noteq> ident"
    by (auto simp add: slot_of_def)
  let ?n = "unat (texture_slot_index s)"
  let ?s1 = "s\<lparr>textures := (textures s)[?n := ident], texture_slot_index := texture_slot_index s + 1\<rparr>"
  from assms(3) False have free: "unat (texture_slot_index s) + 1 < unat (MAX_TEXTURE_SLOTS cfg)"
    by blast
  note first = CalculateTextureIndex_miss [OF miss free]
  have u: "unat (texture_slot_index s + 1) = ?n + 1"
    by (rule unat_succ [OF free])
  have s1: "slot_of ?s1 ident ?n"
    using assms(2) by (simp add: slot_of_def u)
  from alloc_repeat_hit [OF s1, of cfg "K - 1"] obtain i where
    i: "slot_of ?s1 ident i"
       "alloc_repeat cfg ident (K - 1) ?s1 = (replicate (K - 1) (float_of_uint32 (word_of_nat i)), ?s1)"
    by blast
  have "i = ?n"
  proof (rule ccontr)
    assume "i \<noteq> ?n"
    with i(1) have "i < ?n" "textures s ! i = ident"
      by (simp_all add: slot_of_def u)
    with miss show False by blast
  qed
  then have w: "float_of_uint32 (word_of_nat i) = float_of_uint32 (texture_slot_index s)"
    by simp
  obtain k where k: "K = Suc k"
    using assms(1) by (cases K) simp_all
  have r: "alloc_repeat cfg ident K s = (replicate K (float_of_uint32 (texture_slot_index s)), ?s1)"
    using i(2) by (simp add: k first w)
  have "slot_of (snd (alloc_repeat cfg ident K s)) ident ?n
      \<and> fst (alloc_repeat cfg ident K s) = replicate K (float_of_uint32 (word_of_nat ?n))"
    using s1 by (simp add: r)
  with False show ?thesis
    by (auto simp add: r)
qed

lemma room_no_flush:
  assumes "room_for cfg k s"
  shows "ensure_capacity cfg k s = s"
proof -
  have "unat (MAX_VERTEX_COUNT cfg) < 2 ^ 32"
    using unsigned_less [of "MAX_VERTEX_COUNT cfg"] by simp
  with assms have "unat (num_of_vertices_in_batch s) + k < 2 ^ 32"
    by (simp add: room_for_def)
  from ensure_capacity_nat [OF this, of cfg] assms show ?thesis
    by (simp add: room_for_def)
qed

lemma CalculateTextureIndex_hit_scan:
  assumes "slot_of s ident i"
  shows "CalculateTextureIndex cfg ident s
           = (scan_slots (textures s) (unat (texture_slot_index s)) ident, s)"
proof -
  from assms have "\<exists>j<unat (texture_slot_index s). textures s ! j = ident"
    by (auto simp add: slot_of_def)
  from scan_slots_hit [OF this] obtain j where
    "scan_slots (textures s) (unat (texture_slot_index s)) ident = float_of_uint32 (word_of_nat j)"
    by blast
  then have "scan_slots (textures s) (unat (texture_slot_index s)) ident \<noteq> - 1"
    by (simp add: float_of_uint32_not_unset)
  then show ?thesis
    by (simp add: CalculateTextureIndex_def Let_def)
qed

lemma DrawQuad_handle_hit:
  assumes "slot_of s ident i" and "room_for cfg QUAD_VERTEX_COUNT s"
  shows "\<exists>vs. map texture_id vs = replicate 4 (scan_slots (textures s) (unat (texture_slot_index s)) ident)
           \<and> vertices (DrawQuad_handle cfg pos sz ident col s) = vertices s @ vs
           \<and> num_of_vertices_in_batch (DrawQuad_handle cfg pos sz ident col s) = num_of_vertices_in_batch s + 4
           \<and> textures (DrawQuad_handle cfg pos sz ident col s) = textures s
           \<and> texture_slot_index (DrawQuad_handle cfg pos sz ident col s) = texture_slot_index s
           \<and> submissions (DrawQuad_handle cfg pos sz ident col s) = submissions s"
proof -
  let ?r = "scan_slots (textures s) (unat (texture_slot_index s)) ident"
  let ?vs = "map (quad_vertex cfg (GetModelMatrix cfg s pos sz) col ?r (TEX_COORDS cfg) s) [0..<QUAD_VERTEX_COUNT]"
  have t: "map texture_id ?vs = replicate 4 ?r"
    by (simp add: QUAD_VERTEX_COUNT_def quad_vertex_def upt_conv_Cons numeral_eq_Suc)
  have "vertices (DrawQuad_handle cfg pos sz ident col s) = vertices s @ ?vs
      \<and> num_of_vertices_in_batch (DrawQuad_handle cfg pos sz ident col s) = num_of_vertices_in_batch s + 4
      \<and> textures (DrawQuad_handle cfg pos sz ident col s) = textures s
      \<and> texture_slot_index (DrawQuad_handle cfg pos sz ident col s) = texture_slot_index s
      \<and> submissions (DrawQuad_handle cfg pos sz ident col s) = submissions s"
    by (simp add: DrawQuad_handle_def CalculateTextureIndex_hit_scan [OF assms(1)] DrawQuad_closed Let_def
        room_no_flush [OF assms(2)])
  with t show ?thesis by blast
qed

lemma quads_hit:
  assumes "slot_of s ident i" and "room_for cfg (4 * K) s"
  shows "\<exists>vs. map texture_id vs = replicate (4 * K) (scan_slots (textures s) (unat (texture_slot_index s)) ident)
           \<and> vertices (run cfg (replicate K (CDrawQuad_handle pos sz ident col)) s) = vertices s @ vs
           \<and> textures (run cfg (replicate K (CDrawQuad_handle pos sz ident col)) s) = textures s
           \<and> texture_slot_index (run cfg (replicate K (CDrawQuad_handle pos sz ident col)) s) = texture_slot_index s
           \<and> submissions (run cfg (replicate K (CDrawQuad_handle pos sz ident col)) s) = submissions s"
  using assms
proof (induction K arbitrary: s)
  case 0
  then show ?case
    by (simp add: run_def)
next
  case (Suc K)
  let ?s1 = "DrawQuad_handle cfg pos sz ident col s"
  let ?r = "scan_slots (textures s) (unat (texture_slot_index s)) ident"
  have r4: "room_for cfg QUAD_VERTEX_COUNT s"
    using Suc.prems(2) by (simp add: room_for_def QUAD_VERTEX_COUNT_def)
  from DrawQuad_handle_hit [OF Suc.prems(1) r4, of pos sz col] obtain vs where
    a: "map texture_id vs = replicate 4 ?r"
       "vertices ?s1 = vertices s @ vs"
       "num_of_vertices_in_batch ?s1 = num_of_vertices_in_batch s + 4"
       "textures ?s1 = textures s" "texture_slot_index ?s1 = texture_slot_index s"
       "submissions ?s1 = submissions s"
    by blast
  have "unat (MAX_VERTEX_COUNT cfg) < 2 ^ 32"
    using unsigned_less [of "MAX_VERTEX_COUNT cfg"] by simp
  with Suc.prems(2) have "unat (num_of_vertices_in_batch s) + 4 < 2 ^ 32"
    by (simp add: room_for_def)
  from unat_add_small [OF this] have u: "unat (num_of_vertices_in_batch s + 4) = unat (num_of_vertices_in_batch s) + 4"
    by simp
  have s1: "slot_of ?s1 ident i"
    using Suc.prems(1) by (simp add: slot_of_def a(4) a(5))
  have r1: "room_for cfg (4 * K) ?s1"
    using Suc.prems(2) by (simp add: room_for_def a(3) u)
  from Suc.IH [OF s1 r1] obtain vs' where
    b: "map texture_id vs' = replicate (4 * K) ?r"
       "vertices (run cfg (replicate K (CDrawQuad_handle pos sz ident col)) ?s1) = vertices s @ vs @ vs'"
       "textures (run cfg (replicate K (CDrawQuad_handle pos sz ident col)) ?s1) = textures s"
       "texture_slot_index (run cfg (replicate K (CDrawQuad_handle pos sz ident col)) ?s1) = texture_slot_index s"
       "submissions (run cfg (replicate K (CDrawQuad_handle pos sz ident col)) ?s1) = submissions s"
    by (auto simp add: a)
  have e: "run cfg (replicate (Suc K) (CDrawQuad_handle pos sz ident col)) s
         = run cfg (replicate K (CDrawQuad_handle pos sz ident col)) ?s1"
    by (simp add: run_def)
  have "map texture_id (vs @ vs') = replicate (4 * Suc K) ?r"
    using a(1) b(1) by (simp add: replicate_add [symmetric])
  with b show ?case
    unfolding e by (intro exI [of _ "vs @ vs'"]) simp
qed

lemma DrawQuad_handle_miss:
  assumes "\<forall>j<unat (texture_slot_index s). textures s ! j \<noteq> ident"
    and "unat (texture_slot_index s) + 1 < unat (MAX_TEXTURE_SLOTS cfg)"
    and "room_for cfg QUAD_VERTEX_COUNT s"
  shows "\<exists>vs. map texture_id vs = replicate 4 (float_of_uint32 (texture_slot_index s))
           \<and> vertices (DrawQuad_handle cfg pos sz ident col s) = vertices s @ vs
           \<and> num_of_vertices_in_batch (DrawQuad_handle cfg pos sz ident col s) = num_of_vertices_in_batch s + 4
           \<and> textures (DrawQuad_handle cfg pos sz ident col s)
               = (textures s)[unat (texture_slot_index s) := ident]
           \<and> texture_slot_index (DrawQuad_handle cfg pos sz ident col s) = texture_slot_index s + 1
           \<and> submissions (DrawQuad_handle cfg pos sz ident col s) = submissions s"
proof -
  let ?s1 = "s\<lparr>textures := (textures s)[unat (texture_slot_index s) := ident],
               texture_slot_index := texture_slot_index s + 1\<rparr>"
  let ?r = "float_of_uint32 (texture_slot_index s)"
  let ?vs = "map (quad_vertex cfg (GetModelMatrix cfg s pos sz) col ?r (TEX_COORDS cfg) ?s1) [0..<QUAD_VERTEX_COUNT]"
  have t: "map texture_id ?vs = replicate 4 ?r"
    by (simp add: QUAD_VERTEX_COUNT_def quad_vertex_def upt_conv_Cons numeral_eq_Suc)
  have r: "room_for cfg QUAD_VERTEX_COUNT ?s1"
    using assms(3) by (simp add: room_for_def)
  have "vertices (DrawQuad_handle cfg pos sz ident col s) = vertices s @ ?vs
      \<and> num_of_vertices_in_batch (DrawQuad_handle cfg pos sz ident col s) = num_of_vertices_in_batch s + 4
      \<and> textures (DrawQuad_handle cfg pos sz ident col s) = (textures s)[unat (texture_slot_index s) := ident]
      \<and> texture_slot_index (DrawQuad_handle cfg pos sz ident col s) = texture_slot_index s + 1
      \<and> submissions (DrawQuad_handle cfg pos sz ident col s) = submissions s"
    by (simp add: DrawQuad_handle_def CalculateTextureIndex_miss [OF assms(1,2)] DrawQuad_closed Let_def
        room_no_flush [OF r])
  with t show ?thesis by blast
qed

lemma quads_dedup:
  assumes "0 < K"
    and "unat (texture_slot_index s) < length (textures s)"
    and "(\<exists>i. slot_of s ident i) \<or> unat (texture_slot_index s) + 1 < unat (MAX_TEXTURE_SLOTS cfg)"
    and "room_for cfg (4 * K) s"
  shows "\<exists>j vs. slot_of (run cfg (replicate K (CDrawQuad_handle pos sz ident col)) s) ident j
           \<and> vertices (run cfg (replicate K (CDrawQuad_handle pos sz ident col)) s) = vertices s @ vs
           \<and> map texture_id vs = replicate (4 * K) (float_of_uint32 (word_of_nat j))
           \<and> texture_slot_index (run cfg (replicate K (CDrawQuad_handle pos sz ident col)) s)
               = (if \<exists>i. slot_of s ident i then texture_slot_index s else texture_slot_index s + 1)
           \<and> submissions (run cfg (replicate K (CDrawQuad_handle pos sz ident col)) s) = submissions s"
proof (cases "\<exists>i. slot_of s ident i")
  case True
  then obtain i where i: "slot_of s ident i" by blast
  let ?s' = "run cfg (replicate K (CDrawQuad_handle pos sz ident col)) s"
  from quads_hit [OF i assms(4), of pos sz col] obtain vs where
    a: "map texture_id vs = replicate (4 * K) (scan_slots (textures s) (unat (texture_slot_index s)) ident)"
       "vertices ?s' = vertices s @ vs" "textures ?s' = textures s"
       "texture_slot_index ?s' = texture_slot_index s" "submissions ?s' = submissions s"
    by blast
  from i have "\<exists>j<unat (texture_slot_index s). textures s ! j = ident"
    by (auto simp add: slot_of_def)
  from scan_slots_hit [OF this] obtain j where
    j: "j < unat (texture_slot_index s)" "textures s ! j = ident"
       "scan_slots (textures s) (unat (texture_slot_index s)) ident = float_of_uint32 (word_of_nat j)"
    by blast
  have "slot_of ?s' ident j"
    using j by (simp add: slot_of_def a)
  with a j(3) True show ?thesis
    by (intro exI [of _ j] exI [of _ vs]) simp
next
  case False
  then have miss: "\<forall>j<unat (texture_slot_index s). textures s ! j \<noteq> ident"
    by (auto simp add: slot_of_def)
  obtain k where k: "K = Suc k"
    using assms(1) by (cases K) simp_all
  let ?n = "unat (texture_slot_index s)"
  let ?s1 = "DrawQuad_handle cfg pos sz ident col s"
  let ?s' = "run cfg (replicate k (CDrawQuad_handle pos sz ident col)) ?s1"
  have r4: "room_for cfg QUAD_VERTEX_COUNT s"
    using assms(4) by (simp add: room_for_def QUAD_VERTEX_COUNT_def k)
  from assms(3) False have free: "unat (texture_slot_index s) + 1 < unat (MAX_TEXTURE_SLOTS cfg)"
    by blast
  from DrawQuad_handle_miss [OF miss free r4, of pos sz col] obtain vs where
    a: "map texture_id vs = replicate 4 (float_of_uint32 (texture_slot_index s))"
       "vertices ?s1 = vertices s @ vs"
       "num_of_vertices_in_batch ?s1 = num_of_vertices_in_batch s + 4"
       "textures ?s1 = (textures s)[?n := ident]"
       "texture_slot_index ?s1 = texture_slot_index s + 1"
       "submissions ?s1 = submissions s"
    by blast
  have u: "unat (texture_slot_index s + 1) = ?n + 1"
    by (rule unat_succ [OF free])
  have s1: "slot_of ?s1 ident ?n"
    using assms(2) by (simp add: slot_of_def a u)
  have "unat (MAX_VERTEX_COUNT cfg) < 2 ^ 32"
    using unsigned_less [of "MAX_VERTEX_COUNT cfg"] by simp
  with assms(4) have "unat (num_of_vertices_in_batch s) + 4 < 2 ^ 32"
    by (simp add: room_for_def k)
  from unat_add_small [OF this] have v: "unat (num_of_vertices_in_batch s + 4) = unat (num_of_vertices_in_batch s) + 4"
    by simp
  have r1: "room_for cfg (4 * k) ?s1"
    using assms(4) by (simp add: room_for_def a(3) v k)
  have sc: "scan_slots ((textures s)[?n := ident]) (unat (texture_slot_index s + 1)) ident
              = float_of_uint32 (texture_slot_index s)"
    using assms(2) by (simp add: u scan_slots_Suc)
  from quads_hit [OF s1 r1, of pos sz col] obtain vs' where
    b: "map texture_id vs' = replicate (4 * k) (float_of_uint32 (texture_slot_index s))"
       "vertices ?s' = vertices s @ vs @ vs'" "textures ?s' = textures ?s1"
       "texture_slot_index ?s' = texture_slot_index s + 1" "submissions ?s' = submissions s"
    by (auto simp add: sc a)
  have e: "run cfg (replicate K (CDrawQuad_handle pos sz ident col)) s = ?s'"
    by (simp add: run_def k)
  have m: "map texture_id (vs @ vs') = replicate (4 * K) (float_of_uint32 (word_of_nat ?n))"
    using a(1) b(1) by (simp add: k replicate_add [symmetric])
  have "slot_of ?s' ident ?n"
    using s1 by (simp add: slot_of_def b a)
  with b m False show ?thesis
    unfolding e by (intro exI [of _ ?n] exI [of _ "vs @ vs'"]) simp
qed

text \<open>
  Deduplication where the table does not fill up. In a batch whose slot table already
  holds the handle, or has room for one more handle without filling up, \<open>K\<close> calls of the
  allocator with one handle, \<open>K\<close> at least 1, all return the same slot, which holds the
  handle afterwards; the slot count is the old one if the handle was already in the table
  and one more otherwise, whatever \<open>K\<close> is; and nothing is flushed. The same holds for
  \<open>K\<close> quads drawn with one handle while the batch has room for their vertices: all their
  vertices carry the same slot index and the slot count grows by at most one.
\<close>

lemma texture_slot_dedup_in_batch:
  assumes "0 < K"
    and "unat (texture_slot_index s) < length (textures s)"
    and "(\<exists>i. slot_of s ident i) \<or> unat (texture_slot_index s) + 1 < unat (MAX_TEXTURE_SLOTS cfg)"
  shows "(\<exists>j. slot_of (snd (alloc_repeat cfg ident K s)) ident j
           \<and> fst (alloc_repeat cfg ident K s) = replicate K (float_of_uint32 (word_of_nat j))
           \<and> texture_slot_index (snd (alloc_repeat cfg ident K s))
               = (if \<exists>i. slot_of s ident i then texture_slot_index s else texture_slot_index s + 1)
           \<and> submissions (snd (alloc_repeat cfg ident K s)) = submissions s)
    \<and> (room_for cfg (4 * K) s \<longrightarrow>
         (\<exists>j vs. slot_of (run cfg (replicate K (CDrawQuad_handle pos sz ident col)) s) ident j
           \<and> vertices (run cfg (replicate K (CDrawQuad_handle pos sz ident col)) s) = vertices s @ vs
           \<and> map texture_id vs = replicate (4 * K) (float_of_uint32 (word_of_nat j))
           \<and> texture_slot_index (run cfg (replicate K (CDrawQuad_handle pos sz ident col)) s)
               = (if \<exists>i. slot_of s ident i then texture_slot_index s else texture_slot_index s + 1)
           \<and> submissions (run cfg (replicate K (CDrawQuad_handle pos sz ident col)) s) = submissions s))"
  using alloc_repeat_dedup [OF assms] quads_dedup [OF assms] by blast

lemma texture_slot_dedup_example:
  "texture_slot_index (snd (alloc_repeat demo_config 7 3 fresh_scene)) = 1
   \<and> (\<exists>j. fst (alloc_repeat demo_config 7 3 fresh_scene) = replicate 3 (float_of_uint32 (word_of_nat j)))
   \<and> texture_slot_index
        (run demo_config (replicate 3 (CDrawQuad_handle (Vec3 0 0 0) (Vec2 1 1) 7 white)) fresh_scene) = 1"
proof -
  have f: "texture_slot_index fresh_scene = 0" "length (textures fresh_scene) = 2"
    "num_of_vertices_in_batch fresh_scene = 0"
    by (simp_all add: fresh_scene_def BeginScene_def StartBatch_def Init_state_def demo_config_def
        memset_words_def)
  have a: "unat (texture_slot_index fresh_scene) < length (textures fresh_scene)"
    by (simp add: f)
  have b: "(\<exists>i. slot_of fresh_scene 7 i)
      \<or> unat (texture_slot_index fresh_scene) + 1 < unat (MAX_TEXTURE_SLOTS demo_config)"
    by (simp add: f demo_config_def)
  have r: "room_for demo_config (4 * 3) fresh_scene"
    by (simp add: room_for_def f demo_config_def)
  have n: "\<not> (\<exists>i. slot_of fresh_scene 7 i)"
    by (simp add: slot_of_def f)
  note th = texture_slot_dedup_in_batch [OF _ a b, of 3 "Vec3 0 0 0" "Vec2 1 1" white]
  from th n f(1) have 1: "texture_slot_index (snd (alloc_repeat demo_config 7 3 fresh_scene)) = 1
     \<and> (\<exists>j. fst (alloc_repeat demo_config 7 3 fresh_scene) = replicate 3 (float_of_uint32 (word_of_nat j)))"
    by auto
  from th r n f(1) have 2: "texture_slot_index
        (run demo_config (replicate 3 (CDrawQuad_handle (Vec3 0 0 0) (Vec2 1 1) 7 white)) fresh_scene) = 1"
    by auto
  from 1 2 show ?thesis by simp
qed

section \<open>Flushes and their draw descriptors\<close>

lemma replicate_4: "replicate 4 x = [x, x, x, x]"
  by (simp add: numeral_eq_Suc)

lemma upt_4: "[0..<4] = [0, 1, 2, 3]"
  by (simp add: upt_conv_Cons numeral_eq_Suc)

lemma replicate_2: "replicate 2 x = [x, x]"
  by (simp add: numeral_eq_Suc)

lemma float_small: "float_of_uint32 0 = 0" "float_of_uint32 1 = 1"
  by (simp_all add: float_of_uint32_def round_to_float_def float_exponent_def)

lemmas matrix_simps = GetModelMatrix_def mat4_mul_def mat4_mul_vec4_def glm_translate_def glm_scale_def
  mat4_identity_def vec4_add_def vec4_smul_def vec3_of_vec4_def

lemmas scene_simps = run_def DrawQuad_color_def DrawQuad_handle_def DrawQuad_closed
  ensure_capacity_def NewBatch_def StartBatch_def Render_def BeginScene_def EndScene_def
  MakeCommand_def GoToNextDrawCommand_def Init_state_def demo_config_def demo_camera_def
  Let_def QUAD_VERTEX_COUNT_def memset_words_def bind_texture_units_def
  executed_commands_def covered_indices_def zero_command_def plain_quad_def
  quad_vertex_def float_of_minus_one replicate_4 upt_4 matrix_simps white_def

lemma flush_descriptor_count:
  "sub_draw_count (last (submissions (Render cfg s))) = draw_count s + 1
   \<and> sub_draw_count (last (submissions (EndScene cfg s))) = draw_count (EndScene cfg s) + 1
   \<and> sub_draw_count (last (submissions (NewBatch cfg s))) = draw_count s + 1"
  by (simp add: Render_def EndScene_def NewBatch_def StartBatch_def GoToNextDrawCommand_def MakeCommand_def Let_def)

text \<open>
  C2, on the code. \<open>Render\<close> passes \<open>draw_count + 1\<close> to the indirect multi-draw, one more
  than the number of finalised commands (lemma \<open>flush_descriptor_count\<close>). In the first
  scene after initialisation with one quad, \<open>EndScene\<close> leaves one finalised command and
  submits two descriptors: the finalised one and the zero-initialised entry after it.
\<close>

theorem one_quad_scene_descriptors:
  "draw_count (run demo_config one_quad_scene (Init_state demo_config)) = 1
   \<and> map sub_draw_count (submissions (run demo_config one_quad_scene (Init_state demo_config))) = [2]
   \<and> map executed_commands (submissions (run demo_config one_quad_scene (Init_state demo_config)))
       = [[\<lparr>vertex_count = 6, instance_count = 1, first_index = 0, base_vertex = 0, base_instance = 0\<rparr>,
           zero_command]]"
  by (simp add: scene_simps one_quad_scene_def)

lemma capacity_flush_submission:
  assumes "vertex_limit_ok cfg" and "within_capacity cfg s" and "\<not> room_for cfg QUAD_VERTEX_COUNT s"
  shows "\<exists>sub. submissions (DrawQuad cfg m col tid tc s) = submissions s @ [sub]
           \<and> sub_vertices sub = vertices s \<and> sub_indices sub = indices s
           \<and> sub_commands sub = draw_commands s \<and> sub_draw_count sub = draw_count s + 1
           \<and> length (vertices (DrawQuad cfg m col tid tc s)) = 4
           \<and> indices (DrawQuad cfg m col tid tc s) = [0, 1, 2, 2, 3, 0]
           \<and> draw_commands (DrawQuad cfg m col tid tc s) = draw_commands s"
proof -
  have "unat (num_of_vertices_in_batch s) + QUAD_VERTEX_COUNT < 2 ^ 32"
    using assms(1,2)
    by (simp add: vertex_limit_ok_def within_capacity_def QUAD_VERTEX_COUNT_def CUBE_VERTEX_COUNT_def)
  from ensure_capacity_nat [OF this, of cfg] assms(3)
  have e: "ensure_capacity cfg QUAD_VERTEX_COUNT s = NewBatch cfg s"
    by (simp add: room_for_def)
  have l: "QUAD_VERTEX_COUNT = 4"
    by (simp add: QUAD_VERTEX_COUNT_def)
  show ?thesis
    by (simp add: DrawQuad_closed Let_def e NewBatch_fields Render_def) (rule l)
qed

text \<open>
  C1, on the code. A flush forced by the vertex capacity uploads the staged vertices and
  indices unchanged and the triggering quad starts the new batch, but the descriptor
  table it submits is the one left by earlier scenes: only \<open>EndScene\<close> finalises a command
  (lemma \<open>capacity_flush_submission\<close>). In the first scene after initialisation with
  seven quads and room for six, the first submission uploads 24 vertices and 36 indices
  under one descriptor of element count 0, the second uploads 4 vertices and 6 indices
  under the descriptors of element counts 6 and 0: the descriptors cover 6 of the 42
  indices.
\<close>

theorem overflow_scene_descriptors:
  "map (\<lambda>sub. (length (sub_vertices sub), length (sub_indices sub),
                map vertex_count (executed_commands sub), covered_indices sub))
       (submissions (run demo_config overflow_scene (Init_state demo_config)))
     = [(24, 36, [0], 0), (4, 6, [6, 0], 6)]"
  by (simp add: scene_simps overflow_scene_def)

section \<open>Filling the slot table\<close>

lemma slot_table_fill:
  assumes "\<forall>j<unat (texture_slot_index s). textures s ! j \<noteq> ident"
    and "unat (texture_slot_index s) + 1 = unat (MAX_TEXTURE_SLOTS cfg)"
    and "unat (texture_slot_index s) < length (textures s)"
    and "0 < Texture_words cfg"
  shows "fst (CalculateTextureIndex cfg ident s) = float_of_uint32 (texture_slot_index s)
    \<and> length (submissions (snd (CalculateTextureIndex cfg ident s))) = length (submissions s) + 1
    \<and> sub_texture_units (last (submissions (snd (CalculateTextureIndex cfg ident s))))
         = texture_units (snd (CalculateTextureIndex cfg ident s))
    \<and> texture_slot_index (snd (CalculateTextureIndex cfg ident s)) = 0
    \<and> textures (snd (CalculateTextureIndex cfg ident s)) ! unat (texture_slot_index s) = 0
    \<and> vertices (snd (CalculateTextureIndex cfg ident s)) = []
    \<and> fst (CalculateTextureIndex cfg other (snd (CalculateTextureIndex cfg ident s))) = 0"
proof -
  let ?n = "unat (texture_slot_index s)"
  let ?s2 = "s\<lparr>textures := (textures s)[?n := ident], texture_slot_index := texture_slot_index s + 1\<rparr>"
  have "unat (MAX_TEXTURE_SLOTS cfg) < 2 ^ 32"
    using unsigned_less [of "MAX_TEXTURE_SLOTS cfg"] by simp
  with assms(2) have "?n + 1 < 2 ^ 32" by simp
  from unat_add_small [OF this] have u: "unat (texture_slot_index s + 1) = ?n + 1" by simp
  with assms(2) have w: "texture_slot_index s + 1 = MAX_TEXTURE_SLOTS cfg"
    by (simp add: word_unat_eq_iff)
  have c: "CalculateTextureIndex cfg ident s = (float_of_uint32 (texture_slot_index s), NewBatch cfg ?s2)"
    by (simp add: CalculateTextureIndex_def Let_def scan_slots_miss [OF assms(1)] w)
  have m: "?n < (?n + 1) * Texture_words cfg"
    using assms(4) by (cases "Texture_words cfg") simp_all
  have z: "textures (NewBatch cfg ?s2) ! ?n = 0"
    using assms(3) m
    by (simp add: NewBatch_def StartBatch_def Render_def Let_def memset_words_def u nth_append)
  have o: "fst (CalculateTextureIndex cfg other (NewBatch cfg ?s2)) = 0"
    by (simp add: CalculateTextureIndex_def Let_def NewBatch_fields scan_slots_def float_of_uint32_def
        round_to_float_def float_exponent_def)
  show ?thesis
    using z o by (simp add: c NewBatch_fields) (simp add: Render_def Let_def)
qed

text \<open>
  C3, on the code. When an allocation fills the slot table, the flush-and-restart follows
  at once, the new batch starts with an empty table and the next handle gets slot 0
  (lemma \<open>slot_table_fill\<close>). The primitive being emitted is written after that flush,
  into the new batch, with the slot index of the old one. With two slots and the handles
  11, 12, 13, 14: the second submission holds the quad of handle 12 with slot index 1 and
  the quad of handle 13 with slot index 0, and is drawn with the units bound to 13 and
  14, so the quad of handle 12 samples the texture 14.
\<close>

theorem four_texture_scene_sampling:
  "map (\<lambda>v. (vec4_x (color v), texture_id v,
              sampled_texture (submissions (run demo_config four_texture_scene (Init_state demo_config)) ! 1) v))
       (sub_vertices (submissions (run demo_config four_texture_scene (Init_state demo_config)) ! 1))
     = [(12, 1, 14), (12, 1, 14), (12, 1, 14), (12, 1, 14),
        (13, 0, 13), (13, 0, 13), (13, 0, 13), (13, 0, 13)]"
  by (simp add: scene_simps four_texture_scene_def tagged_quad_def CalculateTextureIndex_def
      scan_slots_def replicate_2 float_small sampled_texture_def upt_conv_Cons)

text \<open>
  With text the indices are generated before the slot is assigned: when the atlas
  texture fills the table, the glyph's six indices go out with the old batch and its four
  vertices start the new one, which is then submitted without any index.
\<close>

lemma glyph_scene_indices_lost:
  "map (\<lambda>sub. (length (sub_vertices sub), length (sub_indices sub), map vertex_count (executed_commands sub)))
       (submissions (run demo_config glyph_scene (Init_state demo_config)))
     = [(4, 12, [0]), (4, 0, [6, 0])]"
  by (simp add: scene_simps glyph_scene_def tagged_quad_def CalculateTextureIndex_def
      CalculateTextureIndex_ptr_def scan_slots_def replicate_2 float_small upt_conv_Cons
      RenderText_def RenderText_glyph_def glyph_prepare_def CalculateSquareIndices_def
      write_vertex_def glyph_vertex_def demo_font_def)

lemma alloc_repeat_3:
  "alloc_repeat cfg ident 3 s =
     (case CalculateTextureIndex cfg ident s of
        (t1, s1) \<Rightarrow> (case CalculateTextureIndex cfg ident s1 of
          (t2, s2) \<Rightarrow> (case CalculateTextureIndex cfg ident s2 of
            (t3, s3) \<Rightarrow> ([t1, t2, t3], s3))))"
  by (simp add: numeral_3_eq_3 split: prod.splits)

text \<open>
  C5, on the code. Where a new handle takes the last free slot, the flush inside the
  allocator splits its uses: with one of two slots taken by handle 11, three allocations
  of handle 12 return the slots 1, 0, 0, and the three quads drawn with handle 12 are
  staged in one batch, the first with slot index 1 and the other two with slot index 0,
  while that batch's table holds the handle once, in slot 0. Elsewhere one handle uses one
  slot (lemma \<open>texture_slot_dedup_in_batch\<close>).
\<close>

theorem repeated_handle_at_last_slot:
  "fst (alloc_repeat demo_config 12 3 (run demo_config one_slot_left_scene (Init_state demo_config)))
     = [1, 0, 0]
   \<and> map texture_id (vertices (run demo_config repeated_handle_scene (Init_state demo_config)))
     = [1, 1, 1, 1, 0, 0, 0, 0, 0, 0, 0, 0]
   \<and> map (\<lambda>v. vec4_x (color v)) (vertices (run demo_config repeated_handle_scene (Init_state demo_config)))
     = [12, 12, 12, 12, 12, 12, 12, 12, 12, 12, 12, 12]
   \<and> texture_slot_index (run demo_config repeated_handle_scene (Init_state demo_config)) = 1
   \<and> textures (run demo_config repeated_handle_scene (Init_state demo_config)) = [12, 0]
   \<and> length (submissions (run demo_config repeated_handle_scene (Init_state demo_config))) = 1"
  by (simp add: scene_simps one_slot_left_scene_def repeated_handle_scene_def tagged_quad_def
      CalculateTextureIndex_def scan_slots_def replicate_2 float_small upt_conv_Cons alloc_repeat_3)

section \<open>The unset material id\<close>

text \<open>
  C8, on the code. The unset material id is written as \<open>-1\<close> into an unsigned 32-bit field
  and converted to float when a vertex is stamped. In the first scene after
  initialisation with one quad and no material set, the four vertices submitted carry the
  material id 4294967296, the float nearest to \<open>0xFFFFFFFF\<close>, and not \<open>-1\<close>; every emitter
  does the same (lemma \<open>unset_material_stamp\<close>).
\<close>

theorem unset_material_scene_stamp:
  "map material_id (sub_vertices (hd (submissions (run demo_config one_quad_scene (Init_state demo_config)))))
     = [4294967296, 4294967296, 4294967296, 4294967296]
   \<and> material_id (hd (sub_vertices (hd (submissions (run demo_config one_quad_scene (Init_state demo_config))))))
     \<noteq> - 1
   \<and> float_of_uint32 (- 1) = 4294967296"
  by (simp add: scene_simps one_quad_scene_def)

end
